theory Spec2Isabelle
  imports Complex_Main "HOL-Library.Word"
begin

section \<open>Numbers and vectors\<close>

text \<open>
  The library computes with C \<^verbatim>\<open>double\<close>. The embedding reads a \<^verbatim>\<open>double\<close> as a real
  number and every operation as the exact one, so rounding is not modelled; the two
  operations of \<^verbatim>\<open>lensy_beam\<close> whose rounding decides the number of rays are parameters
  of the model. An array \<^verbatim>\<open>double a[3]\<close> is the triple of its elements
  \<open>(a[0], a[1], a[2])\<close>.

  Where the C code divides by a value that is zero, or takes \<^verbatim>\<open>sqrt\<close> or \<^verbatim>\<open>asin\<close>
  outside the function's domain, IEEE arithmetic yields an infinity or a NaN and the C
  code carries on with it. The reals have no such values. In the intersection routines
  the model follows the C code through them, as the section on these routines
  explains. Elsewhere the model stops there with the fault \<open>NonFinite\<close>; a conversion
  of a \<^verbatim>\<open>double\<close> to \<^verbatim>\<open>int32_t\<close> that does not fit is the fault \<open>IntRange\<close>, and a call of
  \<^verbatim>\<open>exit\<close> is the fault \<open>Exit\<close>.
\<close>

type_synonym vec3 = "real \<times> real \<times> real"

datatype fault = NonFinite | IntRange | Exit int

text \<open>\<open>idx0 a\<close>, \<open>idx1 a\<close> and \<open>idx2 a\<close> are \<^verbatim>\<open>a[0]\<close>, \<^verbatim>\<open>a[1]\<close> and \<^verbatim>\<open>a[2]\<close>.\<close>

fun idx0 :: "vec3 \<Rightarrow> real" where
  "idx0 (a0, a1, a2) = a0"

fun idx1 :: "vec3 \<Rightarrow> real" where
  "idx1 (a0, a1, a2) = a1"

fun idx2 :: "vec3 \<Rightarrow> real" where
  "idx2 (a0, a1, a2) = a2"

fun lensy_inner3 :: "vec3 \<Rightarrow> vec3 \<Rightarrow> real" where
  "lensy_inner3 (a0, a1, a2) (b0, b1, b2) = a0 * b0 + a1 * b1 + a2 * b2"

definition lensy_mag3 :: "vec3 \<Rightarrow> real" where
  "lensy_mag3 a = sqrt (lensy_inner3 a a)"

fun lensy_cross3 :: "vec3 \<Rightarrow> vec3 \<Rightarrow> vec3" where
  "lensy_cross3 (a0, a1, a2) (b0, b1, b2) =
     (a1 * b2 - b1 * a2, - (a0 * b2 - b0 * a2), a0 * b1 - b0 * a1)"

text \<open>
  The source writes every vector operation as three assignments, one for each index.
  The following functions stand for such a group of three lines:
  \<open>vadd a b\<close> for \<^verbatim>\<open>a[i] + b[i]\<close>, \<open>vsub a b\<close> for \<^verbatim>\<open>a[i] - b[i]\<close>, \<open>vscale k a\<close> for
  \<^verbatim>\<open>k * a[i]\<close>, \<open>vdiv a k\<close> for \<^verbatim>\<open>a[i] / k\<close> and \<open>vneg a\<close> for \<^verbatim>\<open>-a[i]\<close>.
\<close>

fun vadd :: "vec3 \<Rightarrow> vec3 \<Rightarrow> vec3" where
  "vadd (a0, a1, a2) (b0, b1, b2) = (a0 + b0, a1 + b1, a2 + b2)"

fun vsub :: "vec3 \<Rightarrow> vec3 \<Rightarrow> vec3" where
  "vsub (a0, a1, a2) (b0, b1, b2) = (a0 - b0, a1 - b1, a2 - b2)"

fun vscale :: "real \<Rightarrow> vec3 \<Rightarrow> vec3" where
  "vscale k (a0, a1, a2) = (k * a0, k * a1, k * a2)"

fun vdiv :: "vec3 \<Rightarrow> real \<Rightarrow> vec3" where
  "vdiv (a0, a1, a2) k = (a0 / k, a1 / k, a2 / k)"

fun vneg :: "vec3 \<Rightarrow> vec3" where
  "vneg (a0, a1, a2) = (- a0, - a1, - a2)"

section \<open>The structures of lensy.h\<close>

text \<open>
  The fields keep their names, prefixed with the name of the structure (\<open>ray_p\<close> is
  \<^verbatim>\<open>p\<close> of \<^verbatim>\<open>struct lensy_ray_struct\<close>). The list linkage \<^verbatim>\<open>raylist\<close> of a ray is not a
  field of the model: a ray list is a HOL list of rays.
\<close>

record lensy_ray_struct =
  ray_p :: vec3
  ray_d :: vec3
  ray_wavelength :: real
  ray_red :: "8 word"
  ray_green :: "8 word"
  ray_blue :: "8 word"
  ray_pathkey :: string

record lensy_paraboloid_struct =
  paraboloid_v :: vec3
  paraboloid_f :: vec3
  paraboloid_aperture :: real

record lensy_sphere_struct =
  sphere_v :: vec3
  sphere_vr :: vec3
  sphere_aperture :: real

record lensy_plane_struct =
  plane_v :: vec3
  plane_n :: vec3
  plane_aperture :: real

record lensy_cylinder_struct =
  cylinder_v :: vec3
  cylinder_va :: vec3
  cylinder_a :: vec3
  cylinder_aperture :: real

record lensy_hyperboloid_struct =
  hyperboloid_v :: vec3
  hyperboloid_a :: vec3
  hyperboloid_e :: real
  hyperboloid_aperture :: real

section \<open>Redirection\<close>

text \<open>
  A redirection routine changes the ray it is given; the model returns the changed ray,
  after the return code where the C function has one.
\<close>

definition lensy_redirect_reflect :: "lensy_ray_struct \<Rightarrow> vec3 \<Rightarrow> vec3 \<Rightarrow> lensy_ray_struct" where
  "lensy_redirect_reflect r q n =
     (let r = r\<lparr>ray_p := q\<rparr>;
          d0 = lensy_inner3 (ray_d r) n
      in r\<lparr>ray_d := vadd (ray_d r) (vscale (- 2 * d0) n)\<rparr>)"

definition lensy_redirect_refract ::
  "lensy_ray_struct \<Rightarrow> vec3 \<Rightarrow> vec3 \<Rightarrow> real \<Rightarrow> int \<times> lensy_ray_struct" where
  "lensy_redirect_refract r q n m =
     (let r = r\<lparr>ray_p := q\<rparr>;
          d0 = lensy_mag3 (ray_d r)
      in if d0 = 0 then (- 2, r)
      else
        let u = vdiv (vneg (ray_d r)) d0;
            n1 = n;
            n1 = (if lensy_inner3 u n1 < 0 then vneg n1 else n1);
            w = lensy_cross3 u n1;
            d1 = lensy_mag3 w;
            d2 = m * d1
        in if \<bar>d2\<bar> \<ge> 1 then (- 1, r)
        else
          let d3 = arcsin d2
          in if d1 > 0 then
               let w1 = vdiv w d1;
                   v = lensy_cross3 w1 n1
               in (0, r\<lparr>ray_d :=
                     vscale d0 (vadd (vscale (cos d3) (vneg n1)) (vscale (sin d3) v))\<rparr>)
             else (0, r\<lparr>ray_d := vscale d0 (vneg n1)\<rparr>))"

text \<open>
  \<^verbatim>\<open>atan2\<close> of the C library, on the reals: the angle of the point \<open>(x, y)\<close> in
  \<open>(-\<pi>, \<pi>]\<close>, and \<open>0\<close> at the origin.
\<close>

definition atan2 :: "real \<Rightarrow> real \<Rightarrow> real" where
  "atan2 y x =
     (if 0 < x then arctan (y / x)
      else if x < 0 then (if 0 \<le> y then arctan (y / x) + pi else arctan (y / x) - pi)
      else if 0 < y then pi / 2
      else if y < 0 then - pi / 2
      else 0)"

definition lensy_redirect_diffract ::
  "lensy_ray_struct \<Rightarrow> vec3 \<Rightarrow> vec3 \<Rightarrow> vec3 \<Rightarrow> real \<Rightarrow> real \<Rightarrow> int
     \<Rightarrow> fault + (int \<times> lensy_ray_struct)" where
  "lensy_redirect_diffract r q n a wli wlt m =
     (let r = r\<lparr>ray_p := q\<rparr>;
          d3 = lensy_mag3 n
      in if d3 = 0 then Inr (- 2, r)
      else
        let n1 = vdiv n d3;
            d0 = lensy_mag3 (ray_d r)
        in if d0 = 0 then Inr (- 2, r)
        else
          let w0 = vdiv (ray_d r) d0;
              d1 = lensy_mag3 a;
              d2 = lensy_inner3 a n1;
              a1 = vsub a (vscale d2 n1);
              d2 = lensy_mag3 a1
          in if d2 = 0 then Inr (- 2, r)
          else
            let a1 = vdiv a1 d2;
                t1 = lensy_cross3 a1 n1;
                d4 = lensy_inner3 w0 n1;
                d5 = lensy_inner3 w0 a1;
                d6 = lensy_inner3 w0 t1
            in if d4 = 0 then Inr (- 2, r)
            else if d6 = 1 then Inr (- 2, r)
            else if 1 - d6 * d6 \<le> 0 then Inl NonFinite
            else
              let d10 = 1 / sqrt (1 - d6 * d6);
                  wli1 = wli * d10;
                  wlt1 = wlt * d10;
                  d7 = atan2 d5 (- d4)
              in if wli1 = 0 \<or> d1 = 0 then Inl NonFinite
              else
                let d8 = (sin d7 / wli1 + real_of_int m / d1) * wlt1
                in if \<bar>d8\<bar> \<ge> 1 then Inr (- 2, r)
                else
                  let d9 = arcsin d8;
                      w1 = vadd (vadd (vscale d6 t1) (vscale (cos d9 / d10) n1))
                             (vscale (sin d9 / d10) a1)
                  in Inr (0, r\<lparr>ray_d := vscale d0 w1\<rparr>))"

definition lensy_redirect_impact :: "lensy_ray_struct \<Rightarrow> vec3 \<Rightarrow> vec3 \<Rightarrow> lensy_ray_struct" where
  "lensy_redirect_impact r q n = r\<lparr>ray_p := q\<rparr>"

section \<open>Intersection\<close>

text \<open>
  An intersection routine receives pointers to the ray, to the surface and to the two
  output vectors \<open>q\<close> and \<open>n\<close>. The model passes this state explicitly: the function
  takes the ray, the surface and the contents of \<open>q\<close> and \<open>n\<close> on entry, and returns the
  return code with the ray, \<open>q\<close> and \<open>n\<close> as the routine leaves them. The three are
  separate objects, as in every call of the two driver programs, which pass local arrays.
  Return code \<open>0\<close> is a hit, \<open>-1\<close> is outside the aperture, \<open>-2\<close> is no intersection.
  Local variables that the source assigns twice are bound twice, under the same name.

  The routines divide without a test of the divisor, and they carry on when the
  quotient is an infinity or a NaN. The model follows them there with the rules of IEEE
  arithmetic: \<open>x / 0\<close> is an infinity for \<open>x \<noteq> 0\<close> and a NaN for \<open>x = 0\<close>; the product of
  an infinity and zero, and the difference of two infinities of one sign, are NaN; an
  operation on a NaN yields a NaN; \<^verbatim>\<open>sqrt\<close> of a negative number is a NaN; a comparison
  with a NaN is false, also \<^verbatim>\<open>==\<close>. An output vector is therefore \<open>Some (x, y, z)\<close>, three
  finite numbers, or \<open>None\<close>: at least one of its elements is an infinity or a NaN. Each
  branch in which a routine divides by zero gives the return code and the outputs that
  these rules lead to; the text before the definition traces them. In one branch of the
  hyperboloid routine the outputs depend on the sign of a zero, which a real number
  does not have, and there the model stops with the fault \<open>NonFinite\<close>.
\<close>

type_synonym intersect_result =
  "fault + (int \<times> lensy_ray_struct \<times> vec3 option \<times> vec3 option)"

text \<open>
  Lines 185 to 219 of lensy.c: the paraboloid routine from the root \<open>d5\<close> on, for finite
  \<open>d5\<close> and a unit vector \<open>w0\<close>. The divisor \<open>d8\<close> is at least one, because \<open>w2\<close> is
  perpendicular to \<open>w0\<close> (lemma \<open>paraboloid_normal\<close>).
\<close>

definition lensy_intersect_paraboloid_tail ::
  "lensy_ray_struct \<Rightarrow> lensy_paraboloid_struct \<Rightarrow> real \<Rightarrow> vec3 \<Rightarrow> real \<Rightarrow> intersect_result" where
  "lensy_intersect_paraboloid_tail r p d0 w0 d5 =
     (let q = vadd (ray_p r) (vscale d5 (ray_d r));
          w2 = vsub q (paraboloid_v p);
          d6 = lensy_inner3 w2 w0;
          w2 = vadd w2 (vscale (- d6) w0);
          d7 = lensy_mag3 w2;
          n = (if d7 = 0 then w0
               else
                 let w2 = vdiv w2 d7;
                     n = vadd (vscale (- d7 / (2 * d0)) w2) w0;
                     d8 = lensy_mag3 n
                 in vdiv n d8)
      in if d7 > paraboloid_aperture p / 2 then Inr (- 1, r, Some q, Some n)
         else Inr (0, r, Some q, Some n))"

text \<open>
  Lines 146 to 184 of lensy.c, and the two branches that divide by zero.

  For \<open>f = 0\<close> the magnitude \<open>d0\<close> is zero and \<open>w0 = f / d0\<close> is NaN in every element.
  Then \<open>d1\<close> to \<open>d4\<close> are NaN, \<^verbatim>\<open>d1 == 0.0\<close> is false, \<open>d10\<close>, \<open>d5\<close> and \<open>d9\<close> are NaN, no
  test returns \<open>-2\<close>, \<open>q = p + d5 d\<close> is NaN, so are \<open>w2\<close>, \<open>d7\<close> and \<open>n\<close>, and
  \<^verbatim>\<open>d7 > p->aperture / 2.0\<close> is false: the routine returns \<open>0\<close>.

  For \<open>f \<noteq> 0\<close>, the coefficients \<open>d1\<close> and \<open>d2\<close> are both zero only for \<open>d = 0\<close> (lemma
  \<open>paraboloid_linear\<close>). Then \<open>d5 = -d3 / d2\<close> is an infinity or a NaN, its product with
  the elements of \<open>d\<close>, which are zero, is NaN, and \<open>q\<close>, \<open>w2\<close>, \<open>d7\<close> and \<open>n\<close> are NaN as
  before: the routine returns \<open>0\<close>.
\<close>

definition lensy_intersect_paraboloid ::
  "lensy_ray_struct \<Rightarrow> lensy_paraboloid_struct \<Rightarrow> vec3 \<Rightarrow> vec3 \<Rightarrow> intersect_result" where
  "lensy_intersect_paraboloid r p q n =
     (let q = ray_p r;
          d0 = lensy_mag3 (paraboloid_f p)
      in if d0 = 0 then Inr (0, r, None, None)
      else
        let w0 = vdiv (paraboloid_f p) d0;
            w1 = vsub (vsub (ray_p r) (paraboloid_v p)) (paraboloid_f p);
            d1 = lensy_inner3 (ray_d r) (ray_d r) - (lensy_inner3 (ray_d r) w0)\<^sup>2;
            d4 = 2 * lensy_mag3 (paraboloid_f p) + lensy_inner3 w1 w0;
            d2 = 2 * lensy_inner3 (ray_d r) w1 - 2 * lensy_inner3 (ray_d r) w0 * d4;
            d3 = lensy_inner3 w1 w1 - d4 * d4
        in if d1 = 0 then
             (if d2 = 0 then Inr (0, r, None, None)
              else lensy_intersect_paraboloid_tail r p d0 w0 (- d3 / d2))
           else
             let d10 = (d2 * d2) - (4 * d1 * d3)
             in if d10 < 0 then Inr (- 2, r, Some q, Some n)
             else
               let d5 = (- d2 + sqrt d10) / (2 * d1);
                   d9 = (- d2 - sqrt d10) / (2 * d1);
                   d5 = (if d5 < 0 \<or> (d9 > 0 \<and> d9 < d5) then d9 else d5)
               in if d5 < 0 then Inr (- 2, r, Some q, Some n)
                  else lensy_intersect_paraboloid_tail r p d0 w0 d5)"

text \<open>
  Lines 292 to 333 of lensy.c: the sphere routine from the root \<open>d4\<close> on, for finite
  \<open>d4\<close>. The divisor \<open>d7\<close> is not zero where it is used: for \<open>vr = 0\<close> the inner product
  tested before is zero and the routine has returned \<open>-2\<close>.
\<close>

definition lensy_intersect_sphere_tail ::
  "lensy_ray_struct \<Rightarrow> lensy_sphere_struct \<Rightarrow> vec3 \<Rightarrow> vec3 \<Rightarrow> vec3 \<Rightarrow> real \<Rightarrow> intersect_result" where
  "lensy_intersect_sphere_tail r s q n w1 d4 =
     (let q1 = vadd (ray_p r) (vscale d4 (ray_d r));
          w4 = vsub q1 w1
      in if lensy_inner3 w4 (sphere_vr s) \<ge> 0 then Inr (- 2, r, Some q, Some n)
      else
        let q = q1;
            n = vsub q w1;
            d0 = lensy_mag3 n;
            n = (if d0 > 0 then vdiv n d0 else n);
            w2 = vsub q (sphere_v s);
            d7 = lensy_mag3 (sphere_vr s);
            w3 = vdiv (sphere_vr s) d7;
            d8 = lensy_inner3 w2 w3;
            w2 = vadd w2 (vscale (- d8) w3);
            d9 = lensy_mag3 w2
        in if d9 > sphere_aperture s / 2 then Inr (- 1, r, Some q, Some n)
           else Inr (0, r, Some q, Some n))"

text \<open>
  Lines 241 to 291 of lensy.c, and the branch that divides by zero.

  The coefficient \<open>d1 = \<langle>d, d\<rangle>\<close> is zero only for \<open>d = 0\<close>, and then \<open>d2\<close> is zero too.
  \<open>d4 = -d3 / d2\<close> is an infinity or a NaN, its product with the elements of \<open>d\<close> is NaN,
  and so is every element of \<open>q1\<close> and \<open>w4\<close>. The test
  \<^verbatim>\<open>lensy_inner3(w4, s->vr) >= 0.0\<close> is false, \<open>q\<close> and \<open>n\<close> become NaN, \<^verbatim>\<open>d0 > 0.0\<close> is
  false, \<open>d9\<close> is NaN and \<^verbatim>\<open>d9 > s->aperture / 2.0\<close> is false: the routine returns \<open>0\<close>.
\<close>

definition lensy_intersect_sphere ::
  "lensy_ray_struct \<Rightarrow> lensy_sphere_struct \<Rightarrow> vec3 \<Rightarrow> vec3 \<Rightarrow> intersect_result" where
  "lensy_intersect_sphere r s q n =
     (let q = ray_p r;
          w1 = vadd (sphere_v s) (sphere_vr s);
          w0 = vsub (ray_p r) w1;
          d1 = lensy_inner3 (ray_d r) (ray_d r);
          d2 = 2 * lensy_inner3 (ray_d r) w0;
          d3 = lensy_inner3 w0 w0 - lensy_inner3 (sphere_vr s) (sphere_vr s)
      in if d1 = 0 then
           (if d2 = 0 then Inr (0, r, None, None)
            else lensy_intersect_sphere_tail r s q n w1 (- d3 / d2))
         else
           let d5 = (d2 * d2) - (4 * d1 * d3)
           in if d5 < 0 then Inr (- 2, r, Some q, Some n)
           else
             let d4 = (- d2 + sqrt d5) / (2 * d1);
                 q1 = vadd (ray_p r) (vscale d4 (ray_d r));
                 w4 = vsub q1 w1;
                 d4 = (if lensy_inner3 w4 (sphere_vr s) \<ge> 0
                       then (- d2 - sqrt d5) / (2 * d1) else d4)
             in lensy_intersect_sphere_tail r s q n w1 d4)"

text \<open>Lines 434 to 468 of lensy.c: the cylinder routine from the root \<open>d5\<close> on, for finite \<open>d5\<close>.\<close>

definition lensy_intersect_cylinder_tail ::
  "lensy_ray_struct \<Rightarrow> lensy_cylinder_struct \<Rightarrow> vec3 \<Rightarrow> vec3 \<Rightarrow> vec3 \<Rightarrow> vec3 \<Rightarrow> vec3 \<Rightarrow> real
     \<Rightarrow> intersect_result" where
  "lensy_intersect_cylinder_tail r c q n a w0 w1 d5 =
     (let q1 = vadd (ray_p r) (vscale d5 (ray_d r));
          w5 = vsub q1 w1
      in if lensy_inner3 w5 (cylinder_va c) \<ge> 0 then Inr (- 2, r, Some q, Some n)
      else
        let q = q1;
            d7 = lensy_inner3 w5 a;
            n = vsub w5 (vscale d7 a);
            d8 = lensy_mag3 n
        in if d8 = 0 then Inr (- 2, r, Some q, Some n)
        else
          let n = vdiv n d8;
              d9 = lensy_inner3 w5 w0;
              w6 = vsub w5 (vscale d9 w0);
              d10 = lensy_mag3 w6
          in if d10 > cylinder_aperture c / 2 then Inr (- 1, r, Some q, Some n)
             else Inr (0, r, Some q, Some n))"

text \<open>
  Lines 354 to 433 of lensy.c, and the branch that divides by zero.

  The coefficient \<open>da = \<langle>w3, w3\<rangle>\<close> is zero only for \<open>w3 = 0\<close>, that is, for a direction
  \<open>d = d4 a\<close> along the axis \<open>a\<close>, and then \<open>db\<close> is zero too. \<open>d5 = -dc / db\<close> is an
  infinity or a NaN. An element of \<open>q1 = p + d5 d\<close> is NaN where the element of \<open>d\<close> is
  zero or \<open>d5\<close> is NaN, and an infinity otherwise; so it is with \<open>w5\<close>. The inner product
  of \<open>w5\<close> and \<open>va\<close> is NaN: it has a term with a NaN, or a term that is an infinity times
  zero, or, \<open>va\<close> being perpendicular to \<open>a\<close>, two infinite terms of opposite sign. So
  \<^verbatim>\<open>lensy_inner3(w5, c->va) >= 0.0\<close> is false and \<open>q\<close> becomes \<open>q1\<close>. If \<open>d7 = \<langle>w5, a\<rangle>\<close> is
  NaN, so is \<open>n\<close>; if not, every element of \<open>w5\<close> is an infinity, \<open>d7 a\<close> is the same
  infinity element by element, and the difference \<open>n\<close> is NaN. Then \<open>d8\<close> is NaN,
  \<^verbatim>\<open>d8 == 0.0\<close> is false, \<open>d9\<close> is NaN as the inner product with \<open>va\<close> was, \<open>d10\<close> is NaN
  and \<^verbatim>\<open>d10 > c->aperture / 2.0\<close> is false: the routine returns \<open>0\<close>.
\<close>

definition lensy_intersect_cylinder ::
  "lensy_ray_struct \<Rightarrow> lensy_cylinder_struct \<Rightarrow> vec3 \<Rightarrow> vec3 \<Rightarrow> intersect_result" where
  "lensy_intersect_cylinder r c q n =
     (let q = ray_p r;
          d0 = lensy_mag3 (cylinder_va c)
      in if d0 = 0 then Inr (- 2, r, Some q, Some n)
      else
        let w0 = vdiv (cylinder_va c) d0;
            d1 = lensy_inner3 (cylinder_a c) w0;
            a = vsub (cylinder_a c) (vscale d1 w0);
            d2 = lensy_mag3 a
        in if d2 = 0 then Inr (- 2, r, Some q, Some n)
        else
          let a = vdiv a d2;
              w1 = vadd (cylinder_v c) (cylinder_va c);
              w2 = vsub (ray_p r) w1;
              d3 = lensy_inner3 w2 a;
              d4 = lensy_inner3 (ray_d r) a;
              w3 = vsub (ray_d r) (vscale d4 a);
              w4 = vsub w2 (vscale d3 a);
              da = lensy_inner3 w3 w3;
              db = 2 * lensy_inner3 w3 w4;
              dc = lensy_inner3 w4 w4 - lensy_inner3 (cylinder_va c) (cylinder_va c)
          in if da = 0 then
               (if db = 0 then Inr (0, r, None, None)
                else lensy_intersect_cylinder_tail r c q n a w0 w1 (- dc / db))
             else
               let d6 = (db * db) - (4 * da * dc)
               in if d6 < 0 then Inr (- 2, r, Some q, Some n)
               else
                 let d5 = (- db + sqrt d6) / (2 * da);
                     q1 = vadd (ray_p r) (vscale d5 (ray_d r));
                     w5 = vsub q1 w1;
                     d5 = (if lensy_inner3 w5 (cylinder_va c) \<ge> 0
                           then (- db - sqrt d6) / (2 * da) else d5)
                 in lensy_intersect_cylinder_tail r c q n a w0 w1 d5)"

text \<open>Lines 488 to 523 of lensy.c. The plane routine tests each of its two divisors.\<close>

definition lensy_intersect_plane ::
  "lensy_ray_struct \<Rightarrow> lensy_plane_struct \<Rightarrow> vec3 \<Rightarrow> vec3 \<Rightarrow> intersect_result" where
  "lensy_intersect_plane r p q n =
     (let q = ray_p r;
          d0 = lensy_inner3 (ray_d r) (plane_n p)
      in if d0 = 0 then Inr (- 2, r, Some q, Some n)
      else
        let d1 = (lensy_inner3 (plane_v p) (plane_n p) - lensy_inner3 (ray_p r) (plane_n p)) / d0
        in if d1 < 0 then Inr (- 2, r, Some q, Some n)
        else
          let q = vadd (ray_p r) (vscale d1 (ray_d r));
              d3 = lensy_mag3 (plane_n p)
          in if d3 = 0 then Inr (- 2, r, Some q, Some n)
          else
            let n = vdiv (plane_n p) d3;
                w = vsub q (plane_v p);
                d2 = lensy_mag3 w
            in if d2 > plane_aperture p / 2 then Inr (- 1, r, Some q, Some n)
               else Inr (0, r, Some q, Some n))"

text \<open>
  Lines 612 to 663 of lensy.c: the hyperboloid routine from the root \<open>d4\<close> on, for
  finite \<open>d4\<close>, a unit vector \<open>w2\<close> and \<open>d8 > 0\<close>. The source tests the axial offset \<open>d0\<close>,
  not the radial distance \<open>d9\<close>, before it divides by \<open>d9\<close>. Three branches compute with
  values that are not finite; in each of them \<open>q\<close> has been written before.

  For \<open>d0 \<noteq> 0\<close> and \<open>d9 = 0\<close>, \<open>w0 / d9\<close> is NaN in every element, so are \<open>n\<close> and \<open>d7\<close>,
  \<^verbatim>\<open>d7 > 0.0\<close> is false and the routine returns \<open>-2\<close>.

  For \<open>e\<^sup>2 < 1\<close> the argument of \<^verbatim>\<open>sqrt\<close> is negative, \<open>d0\<close> and \<open>d1\<close> are NaN, so are
  \<open>n\<close> and \<open>d7\<close>, and the routine returns \<open>-2\<close>.

  For \<open>e\<^sup>2 = 1\<close> the square root \<open>d0\<close> is zero, \<open>d8 / d0\<close> is the positive infinity,
  \<open>d9 / sqrt (d0 d0 + d9 d9)\<close> is one and \<open>d1\<close> is the positive infinity. An element of
  \<open>n = w2 - d1 w0\<close> is NaN where the element of \<open>w0\<close> is zero and an infinity otherwise.
  With a NaN among them \<open>d7\<close> is NaN and the routine returns \<open>-2\<close>. Without, \<open>d7\<close> is the
  positive infinity, \<^verbatim>\<open>d7 > 0.0\<close> holds, \<open>n / d7\<close> is NaN in every element, and the test
  of the aperture decides between \<open>-1\<close> and \<open>0\<close>.
\<close>

definition lensy_intersect_hyperboloid_tail ::
  "lensy_ray_struct \<Rightarrow> lensy_hyperboloid_struct \<Rightarrow> vec3 \<Rightarrow> vec3 \<Rightarrow> vec3 \<Rightarrow> vec3 \<Rightarrow> real \<Rightarrow> real
     \<Rightarrow> intersect_result" where
  "lensy_intersect_hyperboloid_tail r h q n w1 w2 d8 d4 =
     (let q1 = vadd (ray_p r) (vscale d4 (ray_d r));
          w4 = vsub q1 w1
      in if lensy_inner3 w4 (hyperboloid_a h) \<ge> 0 then Inr (- 2, r, Some q, Some n)
      else
        let q = q1;
            w0 = vsub q (hyperboloid_v h);
            d0 = lensy_inner3 w0 w2;
            w0 = vadd w0 (vscale (- d0) w2);
            d9 = lensy_mag3 w0;
            finish = (\<lambda>n. let d7 = lensy_mag3 n
                           in if d7 > 0 then
                                (let n = vdiv n d7
                                 in if d9 > hyperboloid_aperture h / 2
                                    then Inr (- 1, r, Some q, Some n)
                                    else Inr (0, r, Some q, Some n))
                              else Inr (- 2, r, Some q, Some n))
        in if d0 = 0 then finish w2
           else if d9 = 0 then Inr (- 2, r, Some q, None)
           else
             let w0 = vdiv w0 d9;
                 d0 = (d8 * d8) * (hyperboloid_e h * hyperboloid_e h - 1)
             in if d0 < 0 then Inr (- 2, r, Some q, None)
             else if d0 = 0 then
               (if idx0 w0 = 0 \<or> idx1 w0 = 0 \<or> idx2 w0 = 0 then Inr (- 2, r, Some q, None)
                else if d9 > hyperboloid_aperture h / 2 then Inr (- 1, r, Some q, None)
                else Inr (0, r, Some q, None))
             else
               let d0 = sqrt d0;
                   d1 = (d8 / d0) * (d9 / sqrt (d0 * d0 + d9 * d9))
               in finish (vsub w2 (vscale d1 w0)))"

text \<open>
  Lines 543 to 611 of lensy.c, and the branches that divide by zero.

  For \<open>a = 0\<close> the magnitude \<open>d8\<close> is zero and \<open>w2 = -a / d8\<close> is NaN in every element.
  Then \<open>d4\<close>, \<open>d5\<close> and the three coefficients are NaN, \<^verbatim>\<open>d1 == 0.0\<close> and \<^verbatim>\<open>d5 < 0.0\<close> are
  false, the root \<open>d4\<close> is NaN and so are \<open>q1\<close> and \<open>w4\<close>. The tests
  \<^verbatim>\<open>lensy_inner3(w4, h->a) >= 0.0\<close> are false, \<open>q\<close> becomes NaN, then \<open>w0\<close>, \<open>d0\<close>, \<open>d9\<close>,
  \<open>n\<close> and \<open>d7\<close> are NaN, \<^verbatim>\<open>d7 > 0.0\<close> is false and the routine returns \<open>-2\<close>.

  For \<open>a \<noteq> 0\<close> and \<open>e = 0\<close> an element of \<open>a / e\<close> is an infinity, or a NaN where the
  element of \<open>a\<close> is zero. \<open>d5 = \<langle>w2, w3\<rangle>\<close> is an infinity or a NaN, and its product with
  \<open>d0 d4\<close>, which is zero, is NaN: \<open>d2\<close> and \<open>d3\<close> are NaN. Whether \<open>d1\<close> is zero or not,
  the root \<open>d4\<close> is NaN, and the routine returns \<open>-2\<close> as for \<open>a = 0\<close>.

  Where \<open>d1\<close> and \<open>d2\<close> are both zero, \<open>d4 = -d3 / d2\<close> is an infinity or a NaN. That
  leads to the return code \<open>-2\<close>, at the test \<^verbatim>\<open>lensy_inner3(w4, h->a) >= 0.0\<close> with \<open>q\<close>
  and \<open>n\<close> as yet unwritten, or at \<^verbatim>\<open>d7 > 0.0\<close> with both NaN. Which of the two it is
  depends on the sign of the infinity, hence on the sign of the zero \<open>d2\<close>: this branch
  is the fault \<open>NonFinite\<close>.
\<close>

definition lensy_intersect_hyperboloid ::
  "lensy_ray_struct \<Rightarrow> lensy_hyperboloid_struct \<Rightarrow> vec3 \<Rightarrow> vec3 \<Rightarrow> intersect_result" where
  "lensy_intersect_hyperboloid r h q n =
     (let q = ray_p r;
          w1 = vadd (hyperboloid_v h) (hyperboloid_a h);
          f = vadd w1 (vscale (hyperboloid_e h) (vneg (hyperboloid_a h)));
          d8 = lensy_mag3 (hyperboloid_a h)
      in if d8 = 0 \<or> hyperboloid_e h = 0 then Inr (- 2, r, None, None)
      else
        let w2 = vdiv (vneg (hyperboloid_a h)) d8;
            w3 = vadd (vsub (ray_p r) w1) (vdiv (hyperboloid_a h) (hyperboloid_e h));
            w4 = vsub (ray_p r) f;
            d0 = hyperboloid_e h * hyperboloid_e h;
            d4 = lensy_inner3 w2 (ray_d r);
            d5 = lensy_inner3 w2 w3;
            d1 = lensy_inner3 (ray_d r) (ray_d r) - (d0 * d4 * d4);
            d2 = 2 * (lensy_inner3 (ray_d r) w4 - (d0 * d4 * d5));
            d3 = lensy_inner3 w4 w4 - (d0 * d5 * d5)
        in if d1 = 0 then
             (if d2 = 0 then Inl NonFinite
              else lensy_intersect_hyperboloid_tail r h q n w1 w2 d8 (- d3 / d2))
           else
             let d5 = (d2 * d2) - (4 * d1 * d3)
             in if d5 < 0 then Inr (- 2, r, Some q, Some n)
             else
               let d4 = (- d2 + sqrt d5) / (2 * d1);
                   q1 = vadd (ray_p r) (vscale d4 (ray_d r));
                   w4 = vsub q1 w1;
                   d4 = (if lensy_inner3 w4 (hyperboloid_a h) \<ge> 0
                         then (- d2 - sqrt d5) / (2 * d1) else d4)
               in lensy_intersect_hyperboloid_tail r h q n w1 w2 d8 d4)"

section \<open>Ray sources\<close>

text \<open>The constants of lensy.h.\<close>

definition PI :: real where
  "PI = 3.14159265"

definition DEG2RAD :: real where
  "DEG2RAD = 0.01745329252"

definition in_int32 :: "int \<Rightarrow> bool" where
  "in_int32 x \<longleftrightarrow> - (2 ^ 31) \<le> x \<and> x < 2 ^ 31"

text \<open>
  The two generators call \<^verbatim>\<open>malloc\<close> for every ray and \<^verbatim>\<open>snprintf\<close> with the format
  \<^verbatim>\<open>"%e%e%e%e"\<close> for its path key. Both belong to the C library and are parameters of the
  model: \<open>alloc k\<close> is the result of the call number \<open>k\<close> of \<^verbatim>\<open>malloc\<close> (counted from
  \<open>0\<close>), \<open>None\<close> for a null pointer and otherwise the ray structure with the values
  that the new memory happens to hold; \<open>fmt_e x\<close> is the text that \<^verbatim>\<open>%e\<close> prints for
  \<open>x\<close>. \<^verbatim>\<open>snprintf\<close> keeps at most 79 characters in the 80 bytes of \<^verbatim>\<open>pathkey\<close>.

  A generator works on the list, the counter \<open>rc\<close> and the number of calls of
  \<^verbatim>\<open>malloc\<close> made so far. The counters \<open>rc\<close>, \<open>j\<close> and \<open>k\<close> are \<^verbatim>\<open>int32_t\<close> in the source;
  the model counts in the integers and takes it that \<open>rc\<close> stays below \<open>2\<^sup>3\<^sup>1\<close>.
\<close>

text \<open>
  Modelled from the spec: list.h, with \<^verbatim>\<open>struct list_head\<close> and \<^verbatim>\<open>list_add\<close>, is not among
  the sources. The specification takes the ray collection for an unordered collection
  that a sequence container owns. The model keeps it as a list, and \<open>list_add new head\<close>
  puts the new ray in front of the others.
\<close>

definition list_add :: "'a \<Rightarrow> 'a list \<Rightarrow> 'a list" where
  "list_add new head = new # head"

definition pathkey4 :: "(real \<Rightarrow> string) \<Rightarrow> real \<Rightarrow> real \<Rightarrow> real \<Rightarrow> real \<Rightarrow> string" where
  "pathkey4 fmt_e a b c d = take 79 (fmt_e a @ fmt_e b @ fmt_e c @ fmt_e d)"

type_synonym source_state = "lensy_ray_struct list \<times> int \<times> nat"

text \<open>Lines 973 to 986 of lensy.c: the centre ray of the cone. Its colour is not set.\<close>

definition cone_add_center ::
  "(nat \<Rightarrow> lensy_ray_struct option) \<Rightarrow> (real \<Rightarrow> string) \<Rightarrow> lensy_ray_struct
     \<Rightarrow> source_state \<Rightarrow> source_state" where
  "cone_add_center alloc fmt_e pr st =
     (case st of (pl, rc, calls) \<Rightarrow>
        (case alloc calls of
           None \<Rightarrow> (pl, rc, calls + 1)
         | Some pray \<Rightarrow>
             (let pray = pray\<lparr>ray_p := ray_p pr, ray_d := ray_d pr,
                              ray_wavelength := ray_wavelength pr\<rparr>;
                  pray = pray\<lparr>ray_pathkey :=
                           pathkey4 fmt_e (idx0 (ray_p pray)) (idx1 (ray_p pray))
                             (idx2 (ray_p pray)) (ray_wavelength pray)\<rparr>
              in (list_add pray pl, rc + 1, calls + 1))))"

text \<open>Lines 995 to 1029 of lensy.c: the direction \<open>w3\<close> of ray \<open>k\<close> of a shell of \<open>m\<close> rays.\<close>

definition cone_w3 :: "lensy_ray_struct \<Rightarrow> real \<Rightarrow> real \<Rightarrow> int \<Rightarrow> int \<Rightarrow> fault + vec3" where
  "cone_w3 pr d10 d1 m k =
     (let d2 = real_of_int k * (2 * PI / real_of_int m);
          d3 = PI / 2 - d1;
          w0 = (0, 0, 1);
          w1 = (cos d3 * cos d2, cos d3 * sin d2, sin d3);
          w2 = vsub w1 w0;
          d4 = atan2 (idx1 (ray_d pr)) (idx0 (ray_d pr))
      in if \<bar>idx2 (ray_d pr)\<bar> > 1 then Inl NonFinite
      else
        let d5 = arcsin (idx2 (ray_d pr));
            u0 = (cos (PI / 2 - d4), cos d4 * cos (PI / 2 - d5), cos d4 * sin (PI / 2 - d5));
            u1 = (sin (- (PI / 2 - d4)), cos (- (PI / 2 - d4)) * cos (PI / 2 - d5),
                  cos (- (PI / 2 - d4)) * sin (PI / 2 - d5));
            u2 = (0, sin (- (PI / 2 - d5)), cos (- (PI / 2 - d5)));
            w3 = vadd (ray_d pr)
                   (vscale d10 (lensy_inner3 w2 u0, lensy_inner3 w2 u1, lensy_inner3 w2 u2))
        in Inr w3)"

text \<open>Lines 1032 to 1052 of lensy.c: a ray of a shell is added to the list.\<close>

definition cone_add_ray ::
  "(nat \<Rightarrow> lensy_ray_struct option) \<Rightarrow> (real \<Rightarrow> string) \<Rightarrow> lensy_ray_struct \<Rightarrow> vec3
     \<Rightarrow> source_state \<Rightarrow> source_state" where
  "cone_add_ray alloc fmt_e pr w3 st =
     (case st of (pl, rc, calls) \<Rightarrow>
        (case alloc calls of
           None \<Rightarrow> (pl, rc, calls + 1)
         | Some pray \<Rightarrow>
             (let pray = pray\<lparr>ray_p := ray_p pr, ray_d := w3,
                              ray_wavelength := ray_wavelength pr, ray_red := ray_red pr,
                              ray_green := ray_green pr, ray_blue := ray_blue pr\<rparr>;
                  pray = pray\<lparr>ray_pathkey :=
                           pathkey4 fmt_e (idx0 (ray_p pray)) (idx1 (ray_p pray))
                             (idx2 (ray_p pray)) (ray_wavelength pray)\<rparr>
              in (list_add pray pl, rc + 1, calls + 1))))"

text \<open>The loop \<^verbatim>\<open>for (k = 0; k < m; k++)\<close>, entered with the current \<open>k\<close>.\<close>

function cone_k_loop ::
  "(nat \<Rightarrow> lensy_ray_struct option) \<Rightarrow> (real \<Rightarrow> string) \<Rightarrow> lensy_ray_struct \<Rightarrow> real \<Rightarrow> real
     \<Rightarrow> int \<Rightarrow> int \<Rightarrow> source_state \<Rightarrow> fault + source_state" where
  "cone_k_loop alloc fmt_e pr d10 d1 m k st =
     (if k < m then
        (case cone_w3 pr d10 d1 m k of
           Inl e \<Rightarrow> Inl e
         | Inr w3 \<Rightarrow> cone_k_loop alloc fmt_e pr d10 d1 m (k + 1) (cone_add_ray alloc fmt_e pr w3 st))
      else Inr st)"
  by pat_completeness auto
termination
  by (relation "measure (\<lambda>(alloc, fmt_e, pr, d10, d1, m, k, st). nat (m - k))") auto

declare cone_k_loop.simps [simp del]

text \<open>
  The loop \<^verbatim>\<open>for (j = 1; j <= n; j++)\<close>, entered with the current \<open>j\<close>. The number \<open>m\<close>
  of rays of the shell is the \<^verbatim>\<open>double\<close> that \<^verbatim>\<open>floor\<close> returns, converted to
  \<^verbatim>\<open>int32_t\<close>.
\<close>

function cone_j_loop ::
  "(nat \<Rightarrow> lensy_ray_struct option) \<Rightarrow> (real \<Rightarrow> string) \<Rightarrow> lensy_ray_struct \<Rightarrow> real \<Rightarrow> real
     \<Rightarrow> int \<Rightarrow> int \<Rightarrow> source_state \<Rightarrow> fault + source_state" where
  "cone_j_loop alloc fmt_e pr d10 d0 n j st =
     (if j \<le> n then
        (let d1 = real_of_int j * d0;
             m = \<lfloor>sin d1 * 2 * PI / d0\<rfloor>
         in if \<not> in_int32 m then Inl IntRange
            else
              (case cone_k_loop alloc fmt_e pr d10 d1 m 0 st of
                 Inl e \<Rightarrow> Inl e
               | Inr st \<Rightarrow>
                   if \<not> in_int32 (j + 1) then Inl IntRange
                   else cone_j_loop alloc fmt_e pr d10 d0 n (j + 1) st))
      else Inr st)"
  by pat_completeness auto
termination
  by (relation "measure (\<lambda>(alloc, fmt_e, pr, d10, d0, n, j, st). nat (n + 1 - j))") auto

declare cone_j_loop.simps [simp del]

definition lensy_cone ::
  "(nat \<Rightarrow> lensy_ray_struct option) \<Rightarrow> (real \<Rightarrow> string) \<Rightarrow> lensy_ray_struct list
     \<Rightarrow> lensy_ray_struct \<Rightarrow> real \<Rightarrow> real \<Rightarrow> fault + (int \<times> lensy_ray_struct list)" where
  "lensy_cone alloc fmt_e pl pr cone_dia cone_step =
     (let rc = 0;
          d10 = lensy_mag3 (ray_d pr)
      in if d10 = 0 then Inr (rc, pl)
      else
        let st = cone_add_center alloc fmt_e pr (pl, rc, 0);
            d0 = DEG2RAD * cone_step
        in if d0 = 0 then Inl NonFinite
        else
          let n = \<lfloor>(DEG2RAD * cone_dia / 2) / d0\<rfloor>
          in if \<not> in_int32 n then Inl IntRange
             else
               (case cone_j_loop alloc fmt_e pr d10 d0 n 1 st of
                  Inl e \<Rightarrow> Inl e
                | Inr (pl, rc, calls) \<Rightarrow> Inr (rc, pl)))"






section \<open>The detector\<close>

text \<open>
  \<^verbatim>\<open>x_nmax\<close>, \<open>y_nmax\<close> and \<open>b_size\<close> are C \<^verbatim>\<open>int\<close>s and \<^verbatim>\<open>sizeof\<close> has type
  \<^verbatim>\<open>size_t\<close>; the model takes 32 bits for the first and 64 bits for the second and
  writes the conversions out. The pointer \<open>b\<close> is modelled by the buffer it points to, a
  list of 16-bit samples.
\<close>

definition to_size_t :: "int \<Rightarrow> int" where
  "to_size_t x = x mod 2 ^ 64"

definition to_int32 :: "int \<Rightarrow> int" where
  "to_int32 x = (x + 2 ^ 31) mod 2 ^ 32 - 2 ^ 31"

record lensy_ccd_struct =
  ccd_v :: vec3
  ccd_vx :: vec3
  ccd_vy :: vec3
  ccd_x_nmax :: int
  ccd_y_nmax :: int
  ccd_b :: "16 word list"
  ccd_b_size :: int
  ccd_p :: lensy_plane_struct

text \<open>
  \<^verbatim>\<open>malloc\<close> belongs to the C library. What it does is a parameter of the model:
  \<open>malloc_ok\<close> tells whether the call succeeds, and \<open>junk i\<close> is the sample that the new
  block happens to hold at index \<open>i\<close>, since \<^verbatim>\<open>malloc\<close> does not initialise the block.
  The routine ends the program with \<^verbatim>\<open>exit(-1)\<close> where the model returns \<open>Exit (- 1)\<close>.
\<close>

definition lensy_init_ccd ::
  "bool \<Rightarrow> (nat \<Rightarrow> 16 word) \<Rightarrow> lensy_ccd_struct \<Rightarrow> fault + lensy_ccd_struct" where
  "lensy_init_ccd malloc_ok junk ccd =
     (let ccd = ccd\<lparr>ccd_p := (ccd_p ccd)\<lparr>plane_v := ccd_v ccd\<rparr>\<rparr>;
          w0 = lensy_cross3 (ccd_vx ccd) (ccd_vy ccd);
          d0 = lensy_mag3 w0
      in if d0 = 0 then Inl (Exit (- 1))
      else
        let ccd = ccd\<lparr>ccd_p := (ccd_p ccd)\<lparr>plane_n := vdiv w0 d0\<rparr>\<rparr>;
            ccd = ccd\<lparr>ccd_b_size :=
                    to_int32 (to_size_t (to_size_t (2 * to_size_t (ccd_x_nmax ccd))
                                          * to_size_t (ccd_y_nmax ccd)))\<rparr>;
            bytes = to_size_t (ccd_b_size ccd)
        in if \<not> malloc_ok then Inl (Exit (- 1))
        else
          let ccd = ccd\<lparr>ccd_b := map junk [0 ..< nat bytes div 2]\<rparr>;
              ccd = ccd\<lparr>ccd_p := (ccd_p ccd)\<lparr>plane_aperture :=
                      2 * (real_of_int (ccd_x_nmax ccd) * lensy_mag3 (ccd_vx ccd)
                           + real_of_int (ccd_y_nmax ccd) * lensy_mag3 (ccd_vy ccd))\<rparr>\<rparr>
          in Inr ccd)"

section \<open>The grating equation in the words of the specification\<close>

text \<open>
  The specification describes diffraction with the unit normal \<open>n\<close>, the grating vector
  projected into the surface, \<open>a\<^sub>\<bottom> = a - \<langle>a, n\<rangle> n\<close>, its direction \<open>\<^bold>a = a\<^sub>\<bottom> / \<parallel>a\<^sub>\<bottom>\<parallel>\<close>,
  the direction of the rulings \<open>\<^bold>t = \<^bold>a \<times> n\<close>, the unit direction \<open>w\<^sub>0\<close> of the ray, the
  factor \<open>k = 1 / \<surd>(1 - \<langle>w\<^sub>0, \<^bold>t\<rangle>\<^sup>2)\<close> and the angle of incidence
  \<open>\<phi>\<^sub>i = atan2 (\<langle>w\<^sub>0, \<^bold>a\<rangle>, - \<langle>w\<^sub>0, n\<rangle>)\<close>. The definitions below follow these words;
  they are compared with \<open>lensy_redirect_diffract\<close> further down. \<open>grating_sine\<close> is the
  sine \<open>(sin \<phi>\<^sub>i / \<lambda>\<^sub>i' + m / \<Lambda>) \<lambda>\<^sub>o'\<close> of the grating equation for a ruling spacing
  \<open>\<Lambda>\<close>, and \<open>outgoing_sine\<close> reads the sine \<open>sin \<phi>\<^sub>o\<close> off a diffracted direction \<open>d'\<close>,
  whose component along \<open>\<^bold>a\<close> is \<open>\<parallel>d\<parallel> sin \<phi>\<^sub>o / k\<close>.
\<close>

definition unit3 :: "vec3 \<Rightarrow> vec3" where
  "unit3 a = vdiv a (lensy_mag3 a)"

definition grating_a_perp :: "vec3 \<Rightarrow> vec3 \<Rightarrow> vec3" where
  "grating_a_perp n a = vsub a (vscale (lensy_inner3 a (unit3 n)) (unit3 n))"

definition grating_a_hat :: "vec3 \<Rightarrow> vec3 \<Rightarrow> vec3" where
  "grating_a_hat n a = unit3 (grating_a_perp n a)"

definition grating_t_hat :: "vec3 \<Rightarrow> vec3 \<Rightarrow> vec3" where
  "grating_t_hat n a = lensy_cross3 (grating_a_hat n a) (unit3 n)"

definition grating_k :: "vec3 \<Rightarrow> vec3 \<Rightarrow> vec3 \<Rightarrow> real" where
  "grating_k d n a = 1 / sqrt (1 - (lensy_inner3 (unit3 d) (grating_t_hat n a))\<^sup>2)"

definition grating_phi_i :: "vec3 \<Rightarrow> vec3 \<Rightarrow> vec3 \<Rightarrow> real" where
  "grating_phi_i d n a =
     atan2 (lensy_inner3 (unit3 d) (grating_a_hat n a)) (- lensy_inner3 (unit3 d) (unit3 n))"

definition grating_sine :: "real \<Rightarrow> vec3 \<Rightarrow> vec3 \<Rightarrow> vec3 \<Rightarrow> real \<Rightarrow> real \<Rightarrow> int \<Rightarrow> real" where
  "grating_sine spacing d n a wli wlt m =
     (sin (grating_phi_i d n a) / (wli * grating_k d n a) + real_of_int m / spacing)
       * (wlt * grating_k d n a)"

definition outgoing_sine :: "vec3 \<Rightarrow> vec3 \<Rightarrow> vec3 \<Rightarrow> vec3 \<Rightarrow> real" where
  "outgoing_sine d d' n a =
     grating_k d n a * lensy_inner3 (vdiv d' (lensy_mag3 d)) (grating_a_hat n a)"

section \<open>The grid of the beam\<close>








section \<open>The axis of a cylinder\<close>

text \<open>
  Lines 368 to 382 of lensy.c: the unit vector \<open>a\<close> along the axis that the cylinder
  routine computes from the fields \<open>va\<close> and \<open>a\<close>, for \<open>va \<noteq> 0\<close> and \<open>a\<close> not parallel
  to \<open>va\<close>. A ray is parallel to the axis when the cross product of its direction and
  this vector is zero.
\<close>

definition cylinder_axis :: "lensy_cylinder_struct \<Rightarrow> vec3" where
  "cylinder_axis c =
     (let w0 = vdiv (cylinder_va c) (lensy_mag3 (cylinder_va c));
          a = vsub (cylinder_a c) (vscale (lensy_inner3 (cylinder_a c) w0) w0)
      in vdiv a (lensy_mag3 a))"

section \<open>Example data\<close>

text \<open>A ray at position \<open>p\<close> with direction \<open>d\<close>; the other fields do not matter to the routines.\<close>

abbreviation example_ray :: "vec3 \<Rightarrow> vec3 \<Rightarrow> lensy_ray_struct" where
  "example_ray p d \<equiv>
     \<lparr>ray_p = p, ray_d = d, ray_wavelength = 1, ray_red = 0, ray_green = 0, ray_blue = 0,
      ray_pathkey = []\<rparr>"

section \<open>Facts about the vector functions\<close>

lemma inner3_vadd_left: "lensy_inner3 (vadd a b) c = lensy_inner3 a c + lensy_inner3 b c"
  by (cases a, cases b, cases c) (simp add: algebra_simps)

lemma inner3_vscale_left: "lensy_inner3 (vscale k a) c = k * lensy_inner3 a c"
  by (cases a, cases c) (simp add: algebra_simps)

lemma inner3_commute: "lensy_inner3 a b = lensy_inner3 b a"
  by (cases a, cases b) (simp add: algebra_simps)

lemma inner3_self_nonneg: "0 \<le> lensy_inner3 a a"
  by (cases a) simp

lemma mag3_nonneg: "0 \<le> lensy_mag3 a"
  by (simp add: lensy_mag3_def inner3_self_nonneg)

lemma mag3_eq_iff: "lensy_mag3 a = lensy_mag3 b \<longleftrightarrow> lensy_inner3 a a = lensy_inner3 b b"
  by (simp add: lensy_mag3_def)

lemma mag3_one_iff: "lensy_mag3 a = 1 \<longleftrightarrow> lensy_inner3 a a = 1"
  by (simp add: lensy_mag3_def)

lemma mag3_zero_iff: "lensy_mag3 a = 0 \<longleftrightarrow> a = (0, 0, 0)"
proof (cases a)
  case (fields a0 a1 a2)
  have "a0 * a0 + a1 * a1 + a2 * a2 = 0 \<longleftrightarrow> a0 = 0 \<and> a1 = 0 \<and> a2 = 0"
  proof
    assume z: "a0 * a0 + a1 * a1 + a2 * a2 = 0"
    have "0 \<le> a0 * a0" "0 \<le> a1 * a1" "0 \<le> a2 * a2" by simp_all
    with z have "a0 * a0 = 0" "a1 * a1 = 0" "a2 * a2 = 0" by linarith+
    then show "a0 = 0 \<and> a1 = 0 \<and> a2 = 0" by simp
  qed simp
  with fields show ?thesis by (simp add: lensy_mag3_def)
qed

lemma inner3_self_zero_iff: "lensy_inner3 a a = 0 \<longleftrightarrow> a = (0, 0, 0)"
  using mag3_zero_iff [of a] by (simp add: lensy_mag3_def)

lemma inner3_vadd_right: "lensy_inner3 c (vadd a b) = lensy_inner3 c a + lensy_inner3 c b"
  by (cases a, cases b, cases c) (simp add: algebra_simps)

lemma inner3_vscale_right: "lensy_inner3 c (vscale k a) = k * lensy_inner3 c a"
  by (cases a, cases c) (simp add: algebra_simps)

lemma inner3_vdiv_left: "lensy_inner3 (vdiv a k) c = lensy_inner3 a c / k"
  by (cases a, cases c) (simp add: add_divide_distrib)

lemma inner3_vdiv_right: "lensy_inner3 c (vdiv a k) = lensy_inner3 c a / k"
  by (cases a, cases c) (simp add: add_divide_distrib)

lemma mag3_vneg: "lensy_mag3 (vneg a) = lensy_mag3 a"
  by (cases a) (simp add: lensy_mag3_def)

lemma cross3_vneg_right: "lensy_cross3 a (vneg b) = vneg (lensy_cross3 a b)"
  by (cases a, cases b) simp

section \<open>Reflection and refraction\<close>

text \<open>
  Claim C5. \<^verbatim>\<open>lensy_redirect_reflect\<close>, given a unit normal \<open>n\<close>, sets the position of the
  ray to \<open>q\<close> and replaces the direction \<open>d\<close> by \<open>d - 2 \<langle>d, n\<rangle> n\<close>; the new direction
  has the magnitude of the old one.
\<close>

theorem reflect_preserves_magnitude:
  assumes "lensy_mag3 n = 1"
  shows "ray_p (lensy_redirect_reflect r q n) = q
       \<and> ray_d (lensy_redirect_reflect r q n)
           = vsub (ray_d r) (vscale (2 * lensy_inner3 (ray_d r) n) n)
       \<and> lensy_mag3 (ray_d (lensy_redirect_reflect r q n)) = lensy_mag3 (ray_d r)"
proof -
  obtain d0 d1 d2 where d: "ray_d r = (d0, d1, d2)" by (cases "ray_d r")
  obtain n0 n1 n2 where n: "n = (n0, n1, n2)" by (cases n)
  have unit: "n0 * n0 + n1 * n1 + n2 * n2 = 1"
    using assms by (simp add: mag3_one_iff n)
  define k where "k = d0 * n0 + d1 * n1 + d2 * n2"
  have "(d0 - 2 * k * n0) * (d0 - 2 * k * n0) + (d1 - 2 * k * n1) * (d1 - 2 * k * n1)
        + (d2 - 2 * k * n2) * (d2 - 2 * k * n2)
      = (d0 * d0 + d1 * d1 + d2 * d2) - 4 * k * k + 4 * k * k * (n0 * n0 + n1 * n1 + n2 * n2)"
    unfolding k_def by (simp add: algebra_simps)
  also have "\<dots> = d0 * d0 + d1 * d1 + d2 * d2"
    by (simp add: unit)
  finally have keep: "(d0 - 2 * k * n0) * (d0 - 2 * k * n0) + (d1 - 2 * k * n1) * (d1 - 2 * k * n1)
        + (d2 - 2 * k * n2) * (d2 - 2 * k * n2) = d0 * d0 + d1 * d1 + d2 * d2" .
  have dir: "ray_d (lensy_redirect_reflect r q n) = (d0 - 2 * k * n0, d1 - 2 * k * n1, d2 - 2 * k * n2)"
    by (simp add: lensy_redirect_reflect_def Let_def d n k_def)
  have "lensy_mag3 (ray_d (lensy_redirect_reflect r q n)) = lensy_mag3 (ray_d r)"
    unfolding dir d mag3_eq_iff using keep by simp
  moreover have "ray_p (lensy_redirect_reflect r q n) = q"
    by (simp add: lensy_redirect_reflect_def Let_def)
  moreover have "ray_d (lensy_redirect_reflect r q n)
           = vsub (ray_d r) (vscale (2 * lensy_inner3 (ray_d r) n) n)"
    unfolding dir by (simp add: d n k_def)
  ultimately show ?thesis by blast
qed

theorem reflect_preserves_magnitude_witness:
  "lensy_mag3 (0, 0, 1) = 1
   \<and> ray_d (lensy_redirect_reflect
        \<lparr>ray_p = (0, 0, 0), ray_d = (3, 0, - 4), ray_wavelength = 1, ray_red = 0,
         ray_green = 0, ray_blue = 0, ray_pathkey = []\<rparr> (1, 2, 3) (0, 0, 1)) = (3, 0, 4)
   \<and> lensy_mag3 (ray_d (lensy_redirect_reflect
        \<lparr>ray_p = (0, 0, 0), ray_d = (3, 0, - 4), ray_wavelength = 1, ray_red = 0,
         ray_green = 0, ray_blue = 0, ray_pathkey = []\<rparr> (1, 2, 3) (0, 0, 1)))
       = lensy_mag3 (3, 0, - 4)"
proof -
  have h: "lensy_mag3 (0, 0, 1) = 1" by (simp add: lensy_mag3_def)
  show ?thesis
    using h reflect_preserves_magnitude [OF h,
        of "\<lparr>ray_p = (0, 0, 0), ray_d = (3, 0, - 4), ray_wavelength = 1, ray_red = 0,
         ray_green = 0, ray_blue = 0, ray_pathkey = []\<rparr>" "(1, 2, 3)"]
    by (simp add: lensy_redirect_reflect_def)
qed

text \<open>
  Claim C4. For a ray with a direction of positive magnitude and an index ratio \<open>m \<ge> 0\<close>,
  \<^verbatim>\<open>lensy_redirect_refract\<close> returns \<open>-1\<close> (total internal reflection) exactly when
  \<open>m \<sigma> \<ge> 1\<close>, where \<open>\<sigma> = \<parallel>u \<times> n\<parallel>\<close>, \<open>u = -d / \<parallel>d\<parallel>\<close> and \<open>n\<close> is turned so that
  \<open>\<langle>u, n\<rangle> \<ge> 0\<close>; the ray is then the one given but for its position, which is \<open>q\<close>.
  This holds for every \<open>n\<close>, so for every unit normal.
\<close>

theorem refract_total_internal_reflection:
  assumes "0 < lensy_mag3 (ray_d r)" and "0 \<le> m"
  shows "let u = vdiv (vneg (ray_d r)) (lensy_mag3 (ray_d r));
             n1 = (if lensy_inner3 u n < 0 then vneg n else n);
             sigma = lensy_mag3 (lensy_cross3 u n1)
         in (fst (lensy_redirect_refract r q n m) = - 1 \<longleftrightarrow> 1 \<le> m * sigma)
          \<and> (1 \<le> m * sigma \<longrightarrow> snd (lensy_redirect_refract r q n m) = r\<lparr>ray_p := q\<rparr>)"
proof -
  define u where "u = vdiv (vneg (ray_d r)) (lensy_mag3 (ray_d r))"
  define n1 where "n1 = (if lensy_inner3 u n < 0 then vneg n else n)"
  define sigma where "sigma = lensy_mag3 (lensy_cross3 u n1)"
  have "0 \<le> m * sigma"
    using assms(2) by (simp add: sigma_def mag3_nonneg)
  then have abs: "\<bar>m * sigma\<bar> = m * sigma" by simp
  have nz: "lensy_mag3 (ray_d r) \<noteq> 0" using assms(1) by simp
  have run: "lensy_redirect_refract r q n m =
      (if 1 \<le> m * sigma then (- 1, r\<lparr>ray_p := q\<rparr>)
       else if sigma > 0
         then (0, r\<lparr>ray_p := q, ray_d := vscale (lensy_mag3 (ray_d r))
                 (vadd (vscale (cos (arcsin (m * sigma))) (vneg n1))
                       (vscale (sin (arcsin (m * sigma)))
                          (lensy_cross3 (vdiv (lensy_cross3 u n1) sigma) n1)))\<rparr>)
         else (0, r\<lparr>ray_p := q, ray_d := vscale (lensy_mag3 (ray_d r)) (vneg n1)\<rparr>))"
    using nz abs by (simp add: lensy_redirect_refract_def Let_def u_def n1_def sigma_def)
  have "(fst (lensy_redirect_refract r q n m) = - 1 \<longleftrightarrow> 1 \<le> m * sigma)
      \<and> (1 \<le> m * sigma \<longrightarrow> snd (lensy_redirect_refract r q n m) = r\<lparr>ray_p := q\<rparr>)"
    unfolding run by simp
  then show ?thesis
    unfolding Let_def u_def n1_def sigma_def .
qed

theorem refract_total_internal_reflection_witness:
  "0 < lensy_mag3 (0, 0, - 1) \<and> (0::real) \<le> 2
   \<and> lensy_redirect_refract
        \<lparr>ray_p = (0, 0, 1), ray_d = (0, 0, - 1), ray_wavelength = 1, ray_red = 0,
         ray_green = 0, ray_blue = 0, ray_pathkey = []\<rparr> (0, 0, 0) (1, 0, 0) 2
       = (- 1, \<lparr>ray_p = (0, 0, 0), ray_d = (0, 0, - 1), ray_wavelength = 1, ray_red = 0,
         ray_green = 0, ray_blue = 0, ray_pathkey = []\<rparr>)"
proof -
  have h: "0 < lensy_mag3 (ray_d \<lparr>ray_p = (0, 0, 1), ray_d = (0, 0, - 1), ray_wavelength = 1,
         ray_red = 0, ray_green = 0, ray_blue = 0, ray_pathkey = []\<rparr>)"
    by (simp add: lensy_mag3_def)
  have m: "(0::real) \<le> 2" by simp
  show ?thesis
    using refract_total_internal_reflection [OF h m, of "(1, 0, 0)" "(0, 0, 0)"]
    by (simp add: lensy_mag3_def prod_eq_iff Let_def)
qed

text \<open>
  Claim C10. Beside the two documented results, \<^verbatim>\<open>lensy_redirect_refract\<close> has a third:
  for a ray whose direction is the zero vector it returns \<open>-2\<close>; the direction is as it
  was and the position is already \<open>q\<close>.
\<close>

theorem refract_zero_direction:
  assumes "ray_d r = (0, 0, 0)"
  shows "lensy_redirect_refract r q n m = (- 2, r\<lparr>ray_p := q\<rparr>)
       \<and> ray_d (snd (lensy_redirect_refract r q n m)) = ray_d r
       \<and> ray_p (snd (lensy_redirect_refract r q n m)) = q"
  using assms by (simp add: lensy_redirect_refract_def Let_def lensy_mag3_def)

theorem refract_zero_direction_witness:
  "lensy_redirect_refract
        \<lparr>ray_p = (0, 0, 1), ray_d = (0, 0, 0), ray_wavelength = 1, ray_red = 0,
         ray_green = 0, ray_blue = 0, ray_pathkey = []\<rparr> (4, 5, 6) (1, 0, 0) 2
       = (- 2, \<lparr>ray_p = (4, 5, 6), ray_d = (0, 0, 0), ray_wavelength = 1, ray_red = 0,
         ray_green = 0, ray_blue = 0, ray_pathkey = []\<rparr>)"
  using refract_zero_direction [of "\<lparr>ray_p = (0, 0, 1), ray_d = (0, 0, 0), ray_wavelength = 1,
         ray_red = 0, ray_green = 0, ray_blue = 0, ray_pathkey = []\<rparr>" "(4, 5, 6)" "(1, 0, 0)" 2]
  by simp

section \<open>Intersection: what a return value tells\<close>

lemma inner3_vdiv_self: "lensy_inner3 (vdiv a k) (vdiv a k) = lensy_inner3 a a / (k * k)"
  by (cases a) (simp add: add_divide_distrib)

lemma mag3_vdiv_self: "lensy_mag3 a \<noteq> 0 \<Longrightarrow> lensy_mag3 (vdiv a (lensy_mag3 a)) = 1"
proof -
  assume nz: "lensy_mag3 a \<noteq> 0"
  have pos: "0 < lensy_inner3 a a"
    using nz inner3_self_nonneg[of a] by (auto simp: lensy_mag3_def less_le)
  have "lensy_inner3 (vdiv a (lensy_mag3 a)) (vdiv a (lensy_mag3 a))
      = lensy_inner3 a a / (sqrt (lensy_inner3 a a) * sqrt (lensy_inner3 a a))"
    unfolding inner3_vdiv_self lensy_mag3_def ..
  also have "\<dots> = 1" using pos by simp
  finally show ?thesis by (simp add: mag3_one_iff)
qed

lemma mag3_pos_iff: "0 < lensy_mag3 a \<longleftrightarrow> a \<noteq> (0, 0, 0)"
  using mag3_nonneg[of a] mag3_zero_iff[of a] by linarith

lemma mag3_normalised: "a \<noteq> (0, 0, 0) \<Longrightarrow> lensy_mag3 (vdiv a (lensy_mag3 a)) = 1"
  by (simp add: mag3_vdiv_self mag3_zero_iff)

lemma inner3_zero_left: "lensy_inner3 (0, 0, 0) b = 0"
  by (cases b) simp

lemmas mag3_simps = mag3_pos_iff mag3_zero_iff mag3_normalised inner3_zero_left

text \<open>
  For each routine one lemma collects what a returned value implies: the ray is the one
  given, and after a hit, for a ray that does not lead the routine to a division by
  zero, \<open>q\<close> is a point \<open>p + t d\<close> and the normal is a unit vector.
\<close>

lemma plane_returns:
  "lensy_intersect_plane r p q0 n0 = Inr (rc, r', q, n) \<Longrightarrow>
     r' = r \<and> (rc = 0 \<longrightarrow>
       (\<exists>t\<ge>0. q = Some (vadd (ray_p r) (vscale t (ray_d r))))
       \<and> (case n of None \<Rightarrow> False | Some n' \<Rightarrow> lensy_mag3 n' = 1))"
  unfolding lensy_intersect_plane_def Let_def
  by (auto simp: mag3_simps not_less split: if_splits)

lemma sphere_tail_returns:
  "lensy_intersect_sphere_tail r s q0 n0 w1 d4 = Inr (rc, r', q, n) \<Longrightarrow>
     r' = r \<and> (rc = 0 \<longrightarrow> q = Some (vadd (ray_p r) (vscale d4 (ray_d r)))
                 \<and> (case n of None \<Rightarrow> False | Some n' \<Rightarrow> lensy_mag3 n' = 1))"
  unfolding lensy_intersect_sphere_tail_def Let_def
  by (auto simp: mag3_simps split: if_splits)

lemma sphere_returns:
  "lensy_intersect_sphere r s q0 n0 = Inr (rc, r', q, n) \<Longrightarrow>
     r' = r \<and> (rc = 0 \<longrightarrow> ray_d r \<noteq> (0, 0, 0) \<longrightarrow>
       (\<exists>t. q = Some (vadd (ray_p r) (vscale t (ray_d r))))
       \<and> (case n of None \<Rightarrow> False | Some n' \<Rightarrow> lensy_mag3 n' = 1))"
  unfolding lensy_intersect_sphere_def Let_def
  by (auto simp: inner3_self_zero_iff split: if_splits dest!: sphere_tail_returns)

lemma cylinder_tail_returns:
  "lensy_intersect_cylinder_tail r c q0 n0 a w0 w1 d5 = Inr (rc, r', q, n) \<Longrightarrow>
     r' = r \<and> (rc = 0 \<longrightarrow> q = Some (vadd (ray_p r) (vscale d5 (ray_d r)))
                 \<and> (case n of None \<Rightarrow> False | Some n' \<Rightarrow> lensy_mag3 n' = 1))"
  unfolding lensy_intersect_cylinder_tail_def Let_def
  by (auto simp: mag3_simps split: if_splits)

lemma along_axis: "vsub d (vscale k a) = (0, 0, 0) \<Longrightarrow> lensy_cross3 d a = (0, 0, 0)"
  by (cases d, cases a) (auto simp: algebra_simps)

lemma hyperboloid_tail_returns:
  "lensy_intersect_hyperboloid_tail r h q0 n0 w1 w2 d8 d4 = Inr (rc, r', q, n) \<Longrightarrow>
     r' = r \<and> (rc = 0 \<longrightarrow> q = Some (vadd (ray_p r) (vscale d4 (ray_d r)))
                 \<and> (d8 \<noteq> 0 \<longrightarrow> hyperboloid_e h * hyperboloid_e h \<noteq> 1 \<longrightarrow>
                      (case n of None \<Rightarrow> False | Some n' \<Rightarrow> lensy_mag3 n' = 1)))"
  unfolding lensy_intersect_hyperboloid_tail_def Let_def
  by (auto simp: mag3_simps split: if_splits)

lemma hyperboloid_returns:
  "lensy_intersect_hyperboloid r h q0 n0 = Inr (rc, r', q, n) \<Longrightarrow>
     r' = r \<and> (rc = 0 \<longrightarrow>
       (\<exists>t. q = Some (vadd (ray_p r) (vscale t (ray_d r))))
       \<and> (hyperboloid_e h * hyperboloid_e h \<noteq> 1 \<longrightarrow> (case n of None \<Rightarrow> False | Some n' \<Rightarrow> lensy_mag3 n' = 1)))"
  unfolding lensy_intersect_hyperboloid_def Let_def
  by (auto split: if_splits dest!: hyperboloid_tail_returns)

lemma cylinder_returns:
  "lensy_intersect_cylinder r c q0 n0 = Inr (rc, r', q, n) \<Longrightarrow>
     r' = r \<and> (rc = 0 \<longrightarrow> lensy_cross3 (ray_d r) (cylinder_axis c) \<noteq> (0, 0, 0) \<longrightarrow>
       (\<exists>t. q = Some (vadd (ray_p r) (vscale t (ray_d r))))
       \<and> (case n of None \<Rightarrow> False | Some n' \<Rightarrow> lensy_mag3 n' = 1))"
  unfolding lensy_intersect_cylinder_def cylinder_axis_def Let_def
  by (auto simp: inner3_self_zero_iff split: if_splits dest!: cylinder_tail_returns along_axis)

text \<open>The normal of the paraboloid before it is normalised has a length of at least one.\<close>

lemma paraboloid_normal:
  assumes "lensy_mag3 w0 = 1"
  shows "vadd (vscale c (vdiv (vadd w (vscale (- lensy_inner3 w w0) w0)) k)) w0 \<noteq> (0, 0, 0)"
proof -
  let ?u = "vdiv (vadd w (vscale (- lensy_inner3 w w0) w0)) k"
  have one: "lensy_inner3 w0 w0 = 1" using assms by (simp add: mag3_one_iff)
  have perp: "lensy_inner3 ?u w0 = 0"
    by (simp add: inner3_vdiv_left inner3_vadd_left inner3_vscale_left one)
  have "lensy_inner3 (vadd (vscale c ?u) w0) (vadd (vscale c ?u) w0)
      = c * c * lensy_inner3 ?u ?u + 2 * c * lensy_inner3 ?u w0 + lensy_inner3 w0 w0"
    by (simp add: inner3_vadd_left inner3_vadd_right inner3_vscale_left inner3_vscale_right
          inner3_commute [of w0 ?u] algebra_simps)
  also have "\<dots> = c * c * lensy_inner3 ?u ?u + 1" by (simp add: perp one)
  finally have "0 < lensy_inner3 (vadd (vscale c ?u) w0) (vadd (vscale c ?u) w0)"
    using mult_nonneg_nonneg [OF zero_le_square [of c] inner3_self_nonneg [of ?u]]
    by (simp add: power2_eq_square)
  then show ?thesis using inner3_self_zero_iff by force
qed

lemma paraboloid_tail_returns:
  "lensy_intersect_paraboloid_tail r p d0 w0 d5 = Inr (rc, r', q, n) \<Longrightarrow>
     r' = r \<and> (rc = 0 \<longrightarrow> q = Some (vadd (ray_p r) (vscale d5 (ray_d r)))
                 \<and> (lensy_mag3 w0 = 1 \<longrightarrow>
                       (case n of None \<Rightarrow> False | Some n' \<Rightarrow> lensy_mag3 n' = 1)))"
  unfolding lensy_intersect_paraboloid_tail_def Let_def
  by (auto simp: mag3_normalised paraboloid_normal split: if_splits)

text \<open>A direction with \<open>\<langle>d, d\<rangle> = \<langle>d, w\<rangle>\<^sup>2\<close> for a unit vector \<open>w\<close> is a multiple of \<open>w\<close>.\<close>

lemma along_unit_vector:
  assumes "lensy_inner3 w w = 1" and "lensy_inner3 d d = (lensy_inner3 d w)\<^sup>2"
  shows "d = vscale (lensy_inner3 d w) w"
proof -
  let ?k = "lensy_inner3 d w"
  have "lensy_inner3 (vsub d (vscale ?k w)) (vsub d (vscale ?k w))
      = lensy_inner3 d d - 2 * ?k * lensy_inner3 d w + ?k * ?k * lensy_inner3 w w"
    by (cases d, cases w) (simp add: algebra_simps)
  also have "\<dots> = 0" using assms by (simp add: power2_eq_square)
  finally have "vsub d (vscale ?k w) = (0, 0, 0)" by (simp add: inner3_self_zero_iff)
  then show ?thesis by (cases d, cases w) simp
qed

text \<open>
  The paraboloid routine divides by \<open>d2\<close> only where \<open>d1\<close> is zero. For \<open>f \<noteq> 0\<close> and
  \<open>d \<noteq> 0\<close> the coefficient \<open>d2\<close> is then \<open>-4 \<langle>d, w0\<rangle> \<parallel>f\<parallel>\<close>, which is not zero.
\<close>

lemma paraboloid_linear:
  assumes f: "f \<noteq> (0, 0, 0)" and d: "d \<noteq> (0, 0, 0)"
    and d1: "lensy_inner3 d d - (lensy_inner3 d (vdiv f (lensy_mag3 f)))\<^sup>2 = 0"
  shows "2 * lensy_inner3 d w1
       - 2 * lensy_inner3 d (vdiv f (lensy_mag3 f))
           * (2 * lensy_mag3 f + lensy_inner3 w1 (vdiv f (lensy_mag3 f))) \<noteq> 0"
proof -
  let ?w = "vdiv f (lensy_mag3 f)"
  let ?k = "lensy_inner3 d ?w"
  have unit: "lensy_inner3 ?w ?w = 1"
    using mag3_normalised [OF f] by (simp add: mag3_one_iff)
  have dk: "d = vscale ?k ?w"
    using along_unit_vector [OF unit] d1 by simp
  have k: "?k \<noteq> 0"
  proof
    assume "?k = 0"
    then have "d = vscale 0 ?w" using dk by simp
    then show False using d by (cases ?w) simp
  qed
  have m: "0 < lensy_mag3 f" using f by (simp add: mag3_pos_iff)
  have "lensy_inner3 d w1 = lensy_inner3 (vscale ?k ?w) w1"
    by (rule arg_cong [where f = "\<lambda>x. lensy_inner3 x w1", OF dk])
  then have "lensy_inner3 d w1 = ?k * lensy_inner3 w1 ?w"
    by (simp add: inner3_vscale_left inner3_vscale_right inner3_commute)
  then have "2 * lensy_inner3 d w1 - 2 * ?k * (2 * lensy_mag3 f + lensy_inner3 w1 ?w)
      = - 4 * ?k * lensy_mag3 f"
    by (simp add: algebra_simps)
  then show ?thesis using k m by simp
qed

lemma paraboloid_returns:
  "lensy_intersect_paraboloid r p q0 n0 = Inr (rc, r', q, n) \<Longrightarrow>
     r' = r \<and> (rc = 0 \<longrightarrow> ray_d r \<noteq> (0, 0, 0) \<longrightarrow> paraboloid_f p \<noteq> (0, 0, 0) \<longrightarrow>
       (\<exists>t. q = Some (vadd (ray_p r) (vscale t (ray_d r)))
          \<and> (lensy_inner3 (ray_d r) (ray_d r)
                \<noteq> (lensy_inner3 (ray_d r)
                      (vdiv (paraboloid_f p) (lensy_mag3 (paraboloid_f p))))\<^sup>2
              \<longrightarrow> 0 \<le> t))
       \<and> (case n of None \<Rightarrow> False | Some n' \<Rightarrow> lensy_mag3 n' = 1))"
  unfolding lensy_intersect_paraboloid_def Let_def
  using paraboloid_linear [of "paraboloid_f p" "ray_d r"
      "vsub (vsub (ray_p r) (paraboloid_v p)) (paraboloid_f p)"]
  by (auto simp: mag3_simps not_less split: if_splits dest!: paraboloid_tail_returns)

subsection \<open>Rays that lead to a division by zero\<close>

text \<open>
  The conditions on the ray and on the focal vector cannot be dropped: without them the
  sphere, paraboloid and cylinder routines return \<open>0\<close> with \<open>q\<close> and \<open>n\<close> that are not
  finite.
\<close>

lemma sphere_zero_direction:
  "ray_d r = (0, 0, 0) \<Longrightarrow> lensy_intersect_sphere r s q n = Inr (0, r, None, None)"
  by (simp add: lensy_intersect_sphere_def Let_def inner3_zero_left)

lemma paraboloid_zero_focus:
  "paraboloid_f p = (0, 0, 0) \<Longrightarrow> lensy_intersect_paraboloid r p q n = Inr (0, r, None, None)"
  by (simp add: lensy_intersect_paraboloid_def Let_def mag3_zero_iff)

lemma paraboloid_zero_direction:
  "ray_d r = (0, 0, 0) \<Longrightarrow> lensy_intersect_paraboloid r p q n = Inr (0, r, None, None)"
  by (simp add: lensy_intersect_paraboloid_def Let_def inner3_zero_left)

lemma across_axis:
  assumes "lensy_inner3 a a = 1" and "lensy_cross3 d a = (0, 0, 0)"
  shows "vsub d (vscale (lensy_inner3 d a) a) = (0, 0, 0)"
proof -
  have "lensy_inner3 (vsub d (vscale (lensy_inner3 d a) a)) (vsub d (vscale (lensy_inner3 d a) a))
      = lensy_inner3 d d - 2 * lensy_inner3 d a * lensy_inner3 d a
        + lensy_inner3 d a * lensy_inner3 d a * lensy_inner3 a a"
    by (cases d, cases a) (simp add: algebra_simps)
  also have "\<dots> = lensy_inner3 d d * lensy_inner3 a a - (lensy_inner3 d a)\<^sup>2"
    using assms(1) by (simp add: power2_eq_square)
  also have "\<dots> = lensy_inner3 (lensy_cross3 d a) (lensy_cross3 d a)"
    by (cases d, cases a) (simp add: algebra_simps power2_eq_square)
  also have "\<dots> = 0" by (simp add: assms(2))
  finally show ?thesis by (simp add: inner3_self_zero_iff)
qed

lemma cylinder_along_axis:
  assumes va: "cylinder_va c \<noteq> (0, 0, 0)"
    and a: "vsub (cylinder_a c)
              (vscale (lensy_inner3 (cylinder_a c)
                         (vdiv (cylinder_va c) (lensy_mag3 (cylinder_va c))))
                 (vdiv (cylinder_va c) (lensy_mag3 (cylinder_va c)))) \<noteq> (0, 0, 0)"
    and par: "lensy_cross3 (ray_d r) (cylinder_axis c) = (0, 0, 0)"
  shows "lensy_intersect_cylinder r c q n = Inr (0, r, None, None)"
proof -
  have unit: "lensy_inner3 (cylinder_axis c) (cylinder_axis c) = 1"
    using mag3_normalised [OF a] by (simp add: cylinder_axis_def Let_def mag3_one_iff)
  have w3: "vsub (ray_d r) (vscale (lensy_inner3 (ray_d r) (cylinder_axis c)) (cylinder_axis c))
      = (0, 0, 0)"
    by (rule across_axis [OF unit par])
  show ?thesis
    using va a w3
    by (simp add: lensy_intersect_cylinder_def cylinder_axis_def Let_def mag3_zero_iff
          inner3_zero_left)
qed

subsection \<open>The routines at concrete rays and surfaces\<close>

lemma sqrt_4: "sqrt 4 = 2"
  using real_sqrt_abs [of 2] by simp

lemma sqrt_16: "sqrt 16 = 4"
  using real_sqrt_abs [of 4] by simp

lemma sqrt_36: "sqrt 36 = 6"
  using real_sqrt_abs [of 6] by simp

text \<open>Rays that travel towards the vertex of the surface, which is at the origin.\<close>

lemma plane_ahead:
  "lensy_intersect_plane (example_ray (0, 0, 0) (1, 0, 0))
     \<lparr>plane_v = (1, 0, 0), plane_n = (1, 0, 0), plane_aperture = 1\<rparr> (7, 7, 7) (9, 9, 9)
   = Inr (0, example_ray (0, 0, 0) (1, 0, 0), Some (1, 0, 0), Some (1, 0, 0))"
  by (simp add: lensy_intersect_plane_def lensy_mag3_def Let_def)

lemma sphere_ahead:
  "lensy_intersect_sphere (example_ray (- 1, 0, 0) (1, 0, 0))
     \<lparr>sphere_v = (0, 0, 0), sphere_vr = (1, 0, 0), sphere_aperture = 2\<rparr> (7, 7, 7) (9, 9, 9)
   = Inr (0, example_ray (- 1, 0, 0) (1, 0, 0), Some (0, 0, 0), Some (- 1, 0, 0))"
  by (simp add: lensy_intersect_sphere_def lensy_intersect_sphere_tail_def lensy_mag3_def
        sqrt_4 Let_def)

lemma paraboloid_ahead:
  "lensy_intersect_paraboloid (example_ray (2, 0, 0) (- 1, 0, 0))
     \<lparr>paraboloid_v = (0, 0, 0), paraboloid_f = (1, 0, 0), paraboloid_aperture = 4\<rparr>
     (7, 7, 7) (9, 9, 9)
   = Inr (0, example_ray (2, 0, 0) (- 1, 0, 0), Some (0, 0, 0), Some (1, 0, 0))"
  by (simp add: lensy_intersect_paraboloid_def lensy_intersect_paraboloid_tail_def
        lensy_mag3_def Let_def)

text \<open>A ray across the axis of the paraboloid: here the routine solves its quadratic.\<close>

lemma paraboloid_oblique:
  "lensy_intersect_paraboloid (example_ray (1, - 3, 0) (0, 1, 0))
     \<lparr>paraboloid_v = (0, 0, 0), paraboloid_f = (1, 0, 0), paraboloid_aperture = 4\<rparr>
     (7, 7, 7) (9, 9, 9)
   = Inr (0, example_ray (1, - 3, 0) (0, 1, 0), Some (1, - 2, 0),
          Some (1 / sqrt 2, 1 / sqrt 2, 0))"
  by (simp add: lensy_intersect_paraboloid_def lensy_intersect_paraboloid_tail_def
        lensy_mag3_def sqrt_16 sqrt_4 Let_def)

lemma cylinder_ahead:
  "lensy_intersect_cylinder (example_ray (- 1, 0, 0) (1, 0, 0))
     \<lparr>cylinder_v = (0, 0, 0), cylinder_va = (1, 0, 0), cylinder_a = (0, 0, 1),
      cylinder_aperture = 2\<rparr> (7, 7, 7) (9, 9, 9)
   = Inr (0, example_ray (- 1, 0, 0) (1, 0, 0), Some (0, 0, 0), Some (- 1, 0, 0))"
  by (simp add: lensy_intersect_cylinder_def lensy_intersect_cylinder_tail_def lensy_mag3_def
        sqrt_4 Let_def)

lemma hyperboloid_ahead:
  "lensy_intersect_hyperboloid (example_ray (- 3, 0, 0) (1, 0, 0))
     \<lparr>hyperboloid_v = (0, 0, 0), hyperboloid_a = (1, 0, 0), hyperboloid_e = 2,
      hyperboloid_aperture = 2\<rparr> (7, 7, 7) (9, 9, 9)
   = Inr (0, example_ray (- 3, 0, 0) (1, 0, 0), Some (0, 0, 0), Some (- 1, 0, 0))"
  by (simp add: lensy_intersect_hyperboloid_def lensy_intersect_hyperboloid_tail_def
        lensy_mag3_def sqrt_36 Let_def)

text \<open>
  A ray that starts on the plane, and rays that travel away from the vertex of the
  other four surfaces, which lies behind them.
\<close>

lemma plane_at_start:
  "lensy_intersect_plane (example_ray (0, 0, 0) (0, 0, 1))
     \<lparr>plane_v = (0, 0, 0), plane_n = (0, 0, 1), plane_aperture = 2\<rparr> (7, 7, 7) (9, 9, 9)
   = Inr (0, example_ray (0, 0, 0) (0, 0, 1), Some (0, 0, 0), Some (0, 0, 1))"
  by (simp add: lensy_intersect_plane_def lensy_mag3_def Let_def)

lemma sphere_behind:
  "lensy_intersect_sphere (example_ray (- 1, 0, 0) (- 1, 0, 0))
     \<lparr>sphere_v = (0, 0, 0), sphere_vr = (1, 0, 0), sphere_aperture = 2\<rparr> (7, 7, 7) (9, 9, 9)
   = Inr (0, example_ray (- 1, 0, 0) (- 1, 0, 0), Some (0, 0, 0), Some (- 1, 0, 0))"
  by (simp add: lensy_intersect_sphere_def lensy_intersect_sphere_tail_def lensy_mag3_def
        sqrt_4 Let_def)

lemma paraboloid_behind:
  "lensy_intersect_paraboloid (example_ray (2, 0, 0) (1, 0, 0))
     \<lparr>paraboloid_v = (0, 0, 0), paraboloid_f = (1, 0, 0), paraboloid_aperture = 4\<rparr>
     (7, 7, 7) (9, 9, 9)
   = Inr (0, example_ray (2, 0, 0) (1, 0, 0), Some (0, 0, 0), Some (1, 0, 0))"
  by (simp add: lensy_intersect_paraboloid_def lensy_intersect_paraboloid_tail_def
        lensy_mag3_def Let_def)

lemma cylinder_behind:
  "lensy_intersect_cylinder (example_ray (- 1, 0, 0) (- 1, 0, 0))
     \<lparr>cylinder_v = (0, 0, 0), cylinder_va = (1, 0, 0), cylinder_a = (0, 0, 1),
      cylinder_aperture = 2\<rparr> (7, 7, 7) (9, 9, 9)
   = Inr (0, example_ray (- 1, 0, 0) (- 1, 0, 0), Some (0, 0, 0), Some (- 1, 0, 0))"
  by (simp add: lensy_intersect_cylinder_def lensy_intersect_cylinder_tail_def lensy_mag3_def
        sqrt_4 Let_def)

lemma hyperboloid_behind:
  "lensy_intersect_hyperboloid (example_ray (- 3, 0, 0) (- 1, 0, 0))
     \<lparr>hyperboloid_v = (0, 0, 0), hyperboloid_a = (1, 0, 0), hyperboloid_e = 2,
      hyperboloid_aperture = 2\<rparr> (7, 7, 7) (9, 9, 9)
   = Inr (0, example_ray (- 3, 0, 0) (- 1, 0, 0), Some (0, 0, 0), Some (- 1, 0, 0))"
  by (simp add: lensy_intersect_hyperboloid_def lensy_intersect_hyperboloid_tail_def
        lensy_mag3_def sqrt_36 Let_def)


text \<open>The axis of that cylinder.\<close>

lemma cylinder_axis_example:
  "cylinder_axis \<lparr>cylinder_v = (0, 0, 0), cylinder_va = (1, 0, 0), cylinder_a = (0, 0, 1),
      cylinder_aperture = 2\<rparr> = (0, 0, 1)"
  by (simp add: cylinder_axis_def lensy_mag3_def Let_def)

text \<open>
  A ray without a direction, and a paraboloid without a focal vector: the sphere and
  the paraboloid routine divide by zero and return \<open>0\<close>, with \<open>q\<close> and \<open>n\<close> not finite.
\<close>

lemma sphere_no_direction:
  "lensy_intersect_sphere (example_ray (- 1, 0, 0) (0, 0, 0))
     \<lparr>sphere_v = (0, 0, 0), sphere_vr = (1, 0, 0), sphere_aperture = 2\<rparr> (7, 7, 7) (9, 9, 9)
   = Inr (0, example_ray (- 1, 0, 0) (0, 0, 0), None, None)"
  by (simp add: lensy_intersect_sphere_def Let_def)

lemma paraboloid_no_direction:
  "lensy_intersect_paraboloid (example_ray (2, 0, 0) (0, 0, 0))
     \<lparr>paraboloid_v = (0, 0, 0), paraboloid_f = (1, 0, 0), paraboloid_aperture = 4\<rparr>
     (7, 7, 7) (9, 9, 9)
   = Inr (0, example_ray (2, 0, 0) (0, 0, 0), None, None)"
  by (simp add: lensy_intersect_paraboloid_def lensy_mag3_def Let_def)

lemma paraboloid_no_focus:
  "lensy_intersect_paraboloid (example_ray (2, 0, 0) (- 1, 0, 0))
     \<lparr>paraboloid_v = (0, 0, 0), paraboloid_f = (0, 0, 0), paraboloid_aperture = 4\<rparr>
     (7, 7, 7) (9, 9, 9)
   = Inr (0, example_ray (2, 0, 0) (- 1, 0, 0), None, None)"
  by (simp add: lensy_intersect_paraboloid_def lensy_mag3_def Let_def)

subsection \<open>Claims about the intersection routines\<close>

text \<open>
  Claim C1, as stated: whenever one of the five intersection routines returns a hit at
  \<open>q\<close>, there is a \<open>t > 0\<close> with \<open>q = p + t d\<close>. This fails. The plane routine rejects
  only \<open>t < 0\<close>, so a ray that starts on the plane hits it at \<open>t = 0\<close>. The sphere,
  cylinder and hyperboloid routines take the root on the side of the vertex and never
  look at its sign, and the paraboloid routine does not test the root of the linear
  equation that it solves for a ray parallel to the axis: below, each of the four
  reports a hit at the vertex, which lies behind the ray.
\<close>

theorem hit_forward_counterexample:
  "lensy_intersect_plane (example_ray (0, 0, 0) (0, 0, 1))
     \<lparr>plane_v = (0, 0, 0), plane_n = (0, 0, 1), plane_aperture = 2\<rparr> (7, 7, 7) (9, 9, 9)
     = Inr (0, example_ray (0, 0, 0) (0, 0, 1), Some (0, 0, 0), Some (0, 0, 1))
   \<and> \<not> (\<exists>t>0. (0, 0, 0) = vadd (0, 0, 0) (vscale t (0, 0, 1)))
   \<and> lensy_intersect_sphere (example_ray (- 1, 0, 0) (- 1, 0, 0))
     \<lparr>sphere_v = (0, 0, 0), sphere_vr = (1, 0, 0), sphere_aperture = 2\<rparr> (7, 7, 7) (9, 9, 9)
     = Inr (0, example_ray (- 1, 0, 0) (- 1, 0, 0), Some (0, 0, 0), Some (- 1, 0, 0))
   \<and> \<not> (\<exists>t>0. (0, 0, 0) = vadd (- 1, 0, 0) (vscale t (- 1, 0, 0)))
   \<and> lensy_intersect_paraboloid (example_ray (2, 0, 0) (1, 0, 0))
     \<lparr>paraboloid_v = (0, 0, 0), paraboloid_f = (1, 0, 0), paraboloid_aperture = 4\<rparr>
     (7, 7, 7) (9, 9, 9)
     = Inr (0, example_ray (2, 0, 0) (1, 0, 0), Some (0, 0, 0), Some (1, 0, 0))
   \<and> \<not> (\<exists>t>0. (0, 0, 0) = vadd (2, 0, 0) (vscale t (1, 0, 0)))
   \<and> lensy_intersect_cylinder (example_ray (- 1, 0, 0) (- 1, 0, 0))
     \<lparr>cylinder_v = (0, 0, 0), cylinder_va = (1, 0, 0), cylinder_a = (0, 0, 1),
      cylinder_aperture = 2\<rparr> (7, 7, 7) (9, 9, 9)
     = Inr (0, example_ray (- 1, 0, 0) (- 1, 0, 0), Some (0, 0, 0), Some (- 1, 0, 0))
   \<and> lensy_intersect_hyperboloid (example_ray (- 3, 0, 0) (- 1, 0, 0))
     \<lparr>hyperboloid_v = (0, 0, 0), hyperboloid_a = (1, 0, 0), hyperboloid_e = 2,
      hyperboloid_aperture = 2\<rparr> (7, 7, 7) (9, 9, 9)
     = Inr (0, example_ray (- 3, 0, 0) (- 1, 0, 0), Some (0, 0, 0), Some (- 1, 0, 0))
   \<and> \<not> (\<exists>t>0. (0, 0, 0) = vadd (- 3, 0, 0) (vscale t (- 1, 0, 0)))"
proof -
  have "\<not> (\<exists>t>0. (0, 0, 0) = vadd (0, 0, 0) (vscale t (0, 0, 1)))" by simp
  moreover have "\<not> (\<exists>t>0. (0, 0, 0) = vadd (- 1, 0, 0) (vscale t (- 1, 0, 0)))" by simp
  moreover have "\<not> (\<exists>t>0. (0, 0, 0) = vadd (2, 0, 0) (vscale t (1, 0, 0)))" by simp
  moreover have "\<not> (\<exists>t>0. (0, 0, 0) = vadd (- 3, 0, 0) (vscale t (- 1, 0, 0)))" by simp
  ultimately show ?thesis
    using plane_at_start sphere_behind paraboloid_behind cylinder_behind hyperboloid_behind
    by blast
qed

text \<open>
  Claim C1, amended. Take a ray whose direction \<open>d\<close> is not zero and which, for the
  cylinder, is not parallel to the axis (\<open>d \<times> a \<noteq> 0\<close> for the unit axis \<open>a\<close> that the
  routine computes), and for the paraboloid a focal vector \<open>f \<noteq> 0\<close>. Whenever one of
  the five intersection routines then returns a hit, \<open>q\<close> is a point of finite
  coordinates on the line of the ray: \<open>q = p + t d\<close> for a real \<open>t\<close>. For the plane
  \<open>t \<ge> 0\<close>. For the paraboloid \<open>t \<ge> 0\<close> when the leading coefficient
  \<open>\<langle>d, d\<rangle> - \<langle>d, f/\<parallel>f\<parallel>\<rangle>\<^sup>2\<close> of its quadratic is not zero, that is, when the ray is not
  parallel to the axis. The sphere, cylinder and hyperboloid routines choose the root by
  the side of the vertex alone and state nothing about the sign of \<open>t\<close>: the header asks
  the caller for rays set up so that the surface is met at a positive multiple. The
  plane and hyperboloid routines need none of the conditions on the ray. The claim is
  silent on the excluded rays, for which the sphere, paraboloid and cylinder routines
  divide by zero.
\<close>

theorem hit_lies_on_ray:
  "(lensy_intersect_plane r pl q0 n0 = Inr (0, r', q, n) \<longrightarrow>
      (\<exists>t\<ge>0. q = Some (vadd (ray_p r) (vscale t (ray_d r)))))
 \<and> (ray_d r \<noteq> (0, 0, 0) \<and> paraboloid_f pa \<noteq> (0, 0, 0)
      \<and> lensy_intersect_paraboloid r pa q0 n0 = Inr (0, r', q, n) \<longrightarrow>
      (\<exists>t. q = Some (vadd (ray_p r) (vscale t (ray_d r)))
          \<and> (lensy_inner3 (ray_d r) (ray_d r)
                \<noteq> (lensy_inner3 (ray_d r)
                      (vdiv (paraboloid_f pa) (lensy_mag3 (paraboloid_f pa))))\<^sup>2
              \<longrightarrow> 0 \<le> t)))
 \<and> (ray_d r \<noteq> (0, 0, 0) \<and> lensy_intersect_sphere r sp q0 n0 = Inr (0, r', q, n) \<longrightarrow>
      (\<exists>t. q = Some (vadd (ray_p r) (vscale t (ray_d r)))))
 \<and> (lensy_cross3 (ray_d r) (cylinder_axis cy) \<noteq> (0, 0, 0)
      \<and> lensy_intersect_cylinder r cy q0 n0 = Inr (0, r', q, n) \<longrightarrow>
      (\<exists>t. q = Some (vadd (ray_p r) (vscale t (ray_d r)))))
 \<and> (lensy_intersect_hyperboloid r hy q0 n0 = Inr (0, r', q, n) \<longrightarrow>
      (\<exists>t. q = Some (vadd (ray_p r) (vscale t (ray_d r)))))"
  using plane_returns [of r pl q0 n0 0 r' q n] paraboloid_returns [of r pa q0 n0 0 r' q n]
    sphere_returns [of r sp q0 n0 0 r' q n] cylinder_returns [of r cy q0 n0 0 r' q n]
    hyperboloid_returns [of r hy q0 n0 0 r' q n]
  by blast

theorem hit_lies_on_ray_witness:
  "(\<exists>t\<ge>0. Some (1, 0, 0) = Some (vadd (0, 0, 0) (vscale t (1, 0, 0))))
 \<and> (\<exists>t. Some (0, 0, 0) = Some (vadd (2, 0, 0) (vscale t (- 1, 0, 0))))
 \<and> (\<exists>t. Some (1, - 2, 0) = Some (vadd (1, - 3, 0) (vscale t (0, 1, 0))) \<and> 0 \<le> t)
 \<and> (\<exists>t. Some (0, 0, 0) = Some (vadd (- 1, 0, 0) (vscale t (1, 0, 0))))
 \<and> (\<exists>t. Some (0, 0, 0) = Some (vadd (- 3, 0, 0) (vscale t (1, 0, 0))))"
proof -
  note h = hit_lies_on_ray
  have across: "lensy_inner3 (ray_d (example_ray (1, - 3, 0) (0, 1, 0)))
        (ray_d (example_ray (1, - 3, 0) (0, 1, 0)))
      \<noteq> (lensy_inner3 (ray_d (example_ray (1, - 3, 0) (0, 1, 0)))
           (vdiv (paraboloid_f \<lparr>paraboloid_v = (0, 0, 0), paraboloid_f = (1, 0, 0),
                                paraboloid_aperture = 4\<rparr>)
              (lensy_mag3 (paraboloid_f \<lparr>paraboloid_v = (0, 0, 0), paraboloid_f = (1, 0, 0),
                                paraboloid_aperture = 4\<rparr>))))\<^sup>2"
    by (simp add: lensy_mag3_def)
  have "\<exists>t\<ge>0. Some (1, 0, 0) = Some (vadd (0, 0, 0) (vscale t (1, 0, 0)))"
    using h [THEN conjunct1, of "example_ray (0, 0, 0) (1, 0, 0)"] plane_ahead by fastforce
  moreover have "\<exists>t. Some (0, 0, 0) = Some (vadd (2, 0, 0) (vscale t (- 1, 0, 0)))"
    using h [THEN conjunct2, THEN conjunct1, of "example_ray (2, 0, 0) (- 1, 0, 0)"
        "\<lparr>paraboloid_v = (0, 0, 0), paraboloid_f = (1, 0, 0), paraboloid_aperture = 4\<rparr>"]
      paraboloid_ahead
    by fastforce
  moreover have "\<exists>t. Some (1, - 2, 0) = Some (vadd (1, - 3, 0) (vscale t (0, 1, 0))) \<and> 0 \<le> t"
    using h [THEN conjunct2, THEN conjunct1, of "example_ray (1, - 3, 0) (0, 1, 0)"
        "\<lparr>paraboloid_v = (0, 0, 0), paraboloid_f = (1, 0, 0), paraboloid_aperture = 4\<rparr>"
        "(7, 7, 7)" "(9, 9, 9)" "example_ray (1, - 3, 0) (0, 1, 0)" "Some (1, - 2, 0)"
        "Some (1 / sqrt 2, 1 / sqrt 2, 0)"]
      paraboloid_oblique across
    by auto
  moreover have "\<exists>t. Some (0, 0, 0) = Some (vadd (- 1, 0, 0) (vscale t (1, 0, 0)))"
    using h [THEN conjunct2, THEN conjunct2, THEN conjunct1,
        of "example_ray (- 1, 0, 0) (1, 0, 0)"] sphere_ahead
    by fastforce
  moreover have "\<exists>t. Some (0, 0, 0) = Some (vadd (- 1, 0, 0) (vscale t (1, 0, 0)))"
    using h [THEN conjunct2, THEN conjunct2, THEN conjunct2, THEN conjunct1,
        of "example_ray (- 1, 0, 0) (1, 0, 0)"
        "\<lparr>cylinder_v = (0, 0, 0), cylinder_va = (1, 0, 0), cylinder_a = (0, 0, 1),
          cylinder_aperture = 2\<rparr>"] cylinder_ahead cylinder_axis_example
    by fastforce
  moreover have "\<exists>t. Some (0, 0, 0) = Some (vadd (- 3, 0, 0) (vscale t (1, 0, 0)))"
    using h [THEN conjunct2, THEN conjunct2, THEN conjunct2, THEN conjunct2,
        of "example_ray (- 3, 0, 0) (1, 0, 0)"] hyperboloid_ahead
    by fastforce
  ultimately show ?thesis by blast
qed




text \<open>
  Claim C9. An intersection routine never writes the ray: whatever code it returns, and
  so after a hit too, the ray it leaves is the ray it was given, with \<open>p\<close> and \<open>d\<close> as
  before. Only \<open>q\<close> and \<open>n\<close> change.
\<close>

theorem intersect_leaves_ray_unchanged:
  "(lensy_intersect_plane r pl q0 n0 = Inr (rc, r', q, n) \<longrightarrow> r' = r)
 \<and> (lensy_intersect_sphere r sp q0 n0 = Inr (rc, r', q, n) \<longrightarrow> r' = r)
 \<and> (lensy_intersect_paraboloid r pa q0 n0 = Inr (rc, r', q, n) \<longrightarrow> r' = r)
 \<and> (lensy_intersect_cylinder r cy q0 n0 = Inr (rc, r', q, n) \<longrightarrow> r' = r)
 \<and> (lensy_intersect_hyperboloid r hy q0 n0 = Inr (rc, r', q, n) \<longrightarrow> r' = r)"
  using plane_returns [of r pl q0 n0 rc r' q n] paraboloid_returns [of r pa q0 n0 rc r' q n]
    sphere_returns [of r sp q0 n0 rc r' q n] cylinder_returns [of r cy q0 n0 rc r' q n]
    hyperboloid_returns [of r hy q0 n0 rc r' q n]
  by blast

theorem intersect_leaves_ray_unchanged_witness:
  "fst (snd (projr (lensy_intersect_plane (example_ray (0, 0, 0) (1, 0, 0))
     \<lparr>plane_v = (1, 0, 0), plane_n = (1, 0, 0), plane_aperture = 1\<rparr> (7, 7, 7) (9, 9, 9))))
     = example_ray (0, 0, 0) (1, 0, 0)
 \<and> fst (snd (projr (lensy_intersect_sphere (example_ray (- 1, 0, 0) (1, 0, 0))
     \<lparr>sphere_v = (0, 0, 0), sphere_vr = (1, 0, 0), sphere_aperture = 2\<rparr> (7, 7, 7) (9, 9, 9))))
     = example_ray (- 1, 0, 0) (1, 0, 0)
 \<and> fst (snd (projr (lensy_intersect_paraboloid (example_ray (2, 0, 0) (- 1, 0, 0))
     \<lparr>paraboloid_v = (0, 0, 0), paraboloid_f = (1, 0, 0), paraboloid_aperture = 4\<rparr>
     (7, 7, 7) (9, 9, 9))))
     = example_ray (2, 0, 0) (- 1, 0, 0)
 \<and> fst (snd (projr (lensy_intersect_cylinder (example_ray (- 1, 0, 0) (1, 0, 0))
     \<lparr>cylinder_v = (0, 0, 0), cylinder_va = (1, 0, 0), cylinder_a = (0, 0, 1),
      cylinder_aperture = 2\<rparr> (7, 7, 7) (9, 9, 9))))
     = example_ray (- 1, 0, 0) (1, 0, 0)
 \<and> fst (snd (projr (lensy_intersect_hyperboloid (example_ray (- 3, 0, 0) (1, 0, 0))
     \<lparr>hyperboloid_v = (0, 0, 0), hyperboloid_a = (1, 0, 0), hyperboloid_e = 2,
      hyperboloid_aperture = 2\<rparr> (7, 7, 7) (9, 9, 9))))
     = example_ray (- 3, 0, 0) (1, 0, 0)"
  using intersect_leaves_ray_unchanged [of "example_ray (0, 0, 0) (1, 0, 0)" _ "(7, 7, 7)" "(9, 9, 9)" 0
      "example_ray (0, 0, 0) (1, 0, 0)" "Some (1, 0, 0)" "Some (1, 0, 0)"]
    intersect_leaves_ray_unchanged [of "example_ray (- 1, 0, 0) (1, 0, 0)" _ "(7, 7, 7)" "(9, 9, 9)" 0
      "example_ray (- 1, 0, 0) (1, 0, 0)" "Some (0, 0, 0)" "Some (- 1, 0, 0)"]
    plane_ahead sphere_ahead paraboloid_ahead cylinder_ahead hyperboloid_ahead
  by simp

section \<open>Diffraction\<close>

lemma inner3_cross3_self: "lensy_inner3 (lensy_cross3 a b) a = 0"
  by (cases a, cases b) (simp add: algebra_simps)

lemma inner3_vsub_left: "lensy_inner3 (vsub a b) c = lensy_inner3 a c - lensy_inner3 b c"
  by (cases a, cases b, cases c) (simp add: algebra_simps)

lemma vdiv_vscale_cancel: "k \<noteq> 0 \<Longrightarrow> vdiv (vscale k a) k = a"
  by (cases a) simp

lemma diffract_ok:
  assumes ok: "lensy_redirect_diffract r q n a wli wlt m = Inr (0, r')"
  shows "lensy_mag3 n \<noteq> 0" "lensy_mag3 (ray_d r) \<noteq> 0" "lensy_mag3 (grating_a_perp n a) \<noteq> 0"
    "0 < 1 - (lensy_inner3 (unit3 (ray_d r)) (grating_t_hat n a))\<^sup>2"
    "\<bar>grating_sine (lensy_mag3 a) (ray_d r) n a wli wlt m\<bar> < 1"
    "ray_d r' = vscale (lensy_mag3 (ray_d r))
        (vadd (vadd (vscale (lensy_inner3 (unit3 (ray_d r)) (grating_t_hat n a)) (grating_t_hat n a))
                    (vscale (cos (arcsin (grating_sine (lensy_mag3 a) (ray_d r) n a wli wlt m))
                              / grating_k (ray_d r) n a) (unit3 n)))
              (vscale (sin (arcsin (grating_sine (lensy_mag3 a) (ray_d r) n a wli wlt m))
                        / grating_k (ray_d r) n a) (grating_a_hat n a)))"
  using ok
  unfolding lensy_redirect_diffract_def Let_def grating_sine_def grating_k_def grating_phi_i_def
    grating_t_hat_def grating_a_hat_def grating_a_perp_def unit3_def
  by (auto simp: power2_eq_square not_le split: if_splits)


lemma inner3_unit3_self: "lensy_mag3 a \<noteq> 0 \<Longrightarrow> lensy_inner3 (unit3 a) (unit3 a) = 1"
  using mag3_vdiv_self [of a] by (simp add: unit3_def mag3_one_iff)

lemma a_perp_orthogonal:
  assumes "lensy_mag3 n \<noteq> 0"
  shows "lensy_inner3 (grating_a_perp n a) (unit3 n) = 0"
  unfolding grating_a_perp_def inner3_vsub_left inner3_vscale_left
  by (simp add: inner3_unit3_self [OF assms])

lemma a_hat_orthogonal:
  assumes "lensy_mag3 n \<noteq> 0"
  shows "lensy_inner3 (unit3 n) (grating_a_hat n a) = 0"
  using a_perp_orthogonal [OF assms, of a]
  by (simp add: grating_a_hat_def unit3_def [of "grating_a_perp n a"] inner3_vdiv_right
        inner3_commute [of "unit3 n"])

lemma t_hat_orthogonal: "lensy_inner3 (grating_t_hat n a) (grating_a_hat n a) = 0"
  by (simp add: grating_t_hat_def inner3_cross3_self)

lemma a_perp_of_orthogonal:
  assumes "lensy_inner3 a n = 0"
  shows "grating_a_perp n a = a"
proof -
  have "lensy_inner3 a (unit3 n) = 0"
    using assms by (simp add: unit3_def inner3_vdiv_right)
  then show ?thesis
    by (cases a, cases "unit3 n") (simp add: grating_a_perp_def)
qed

lemma diffract_outgoing_sine:
  assumes ok: "lensy_redirect_diffract r q n a wli wlt m = Inr (0, r')"
  shows "outgoing_sine (ray_d r) (ray_d r') n a
           = grating_sine (lensy_mag3 a) (ray_d r) n a wli wlt m"
proof -
  note facts = diffract_ok [OF ok]
  define s where "s = grating_sine (lensy_mag3 a) (ray_d r) n a wli wlt m"
  define k where "k = grating_k (ray_d r) n a"
  define g where "g = lensy_inner3 (unit3 (ray_d r)) (grating_t_hat n a)"
  have k_pos: "0 < k"
    using facts(4) by (simp add: k_def grating_k_def)
  have s_range: "- 1 \<le> s" "s \<le> 1"
    using facts(5) by (simp_all add: s_def)
  have unit_a: "lensy_inner3 (grating_a_hat n a) (grating_a_hat n a) = 1"
    using facts(3) by (simp add: grating_a_hat_def inner3_unit3_self)
  have dir: "vdiv (ray_d r') (lensy_mag3 (ray_d r))
      = vadd (vadd (vscale g (grating_t_hat n a)) (vscale (cos (arcsin s) / k) (unit3 n)))
             (vscale (sin (arcsin s) / k) (grating_a_hat n a))"
    unfolding facts(6) s_def k_def g_def using facts(2) by (simp add: vdiv_vscale_cancel)
  have "lensy_inner3 (vdiv (ray_d r') (lensy_mag3 (ray_d r))) (grating_a_hat n a)
      = sin (arcsin s) / k"
    unfolding dir inner3_vadd_left inner3_vscale_left
    by (simp add: t_hat_orthogonal a_hat_orthogonal [OF facts(1)] unit_a)
  also have "\<dots> = s / k"
    using s_range by simp
  finally have "outgoing_sine (ray_d r) (ray_d r') n a = k * (s / k)"
    by (simp add: outgoing_sine_def k_def)
  also have "\<dots> = s" using k_pos by simp
  finally show ?thesis by (simp add: s_def)
qed

lemma sqrt_9: "sqrt 9 = 3"
  using real_sqrt_abs [of 3] by simp

lemma sqrt_25: "sqrt 25 = 5"
  using real_sqrt_abs [of 5] by simp

lemma atan2_0_1: "atan2 0 1 = 0"
  by (simp add: atan2_def)

lemma diffract_oblique_grating_vector:
  "lensy_redirect_diffract (example_ray (0, 0, 1) (0, 0, - 1)) (0, 0, 0) (0, 0, 1) (3, 0, 4) 1 1 1
     = Inr (0, example_ray (0, 0, 0) (1 / 5, 0, cos (arcsin (1 / 5))))"
  by (simp add: lensy_redirect_diffract_def lensy_mag3_def Let_def sqrt_9 sqrt_25 atan2_0_1)

lemma diffract_in_plane_grating_vector:
  "lensy_redirect_diffract (example_ray (0, 0, 1) (0, 0, - 1)) (0, 0, 0) (0, 0, 1) (3, 0, 0) 1 1 1
     = Inr (0, example_ray (0, 0, 0) (1 / 3, 0, cos (arcsin (1 / 3))))"
  by (simp add: lensy_redirect_diffract_def lensy_mag3_def Let_def sqrt_9 atan2_0_1)

text \<open>
  Claim C2, as stated: the term \<open>m / \<Lambda>\<close> of the grating equation in
  \<^verbatim>\<open>lensy_redirect_diffract\<close> uses \<open>\<Lambda> = \<parallel>a\<^sub>\<bottom>\<parallel>\<close>, the magnitude of the projected grating
  vector, for every \<open>a\<close> not parallel to \<open>n\<close>. This fails for \<open>a = (3, 0, 4)\<close> on the
  surface with normal \<open>(0, 0, 1)\<close>, at normal incidence with both wavelengths \<open>1\<close> and
  order \<open>1\<close>: there \<open>\<parallel>a\<^sub>\<bottom>\<parallel> = 3\<close> and the sine of the claim is \<open>1/3\<close>, but the routine divides
  by \<open>\<parallel>a\<parallel> = 5\<close> and the ray leaves with sine \<open>1/5\<close>.
\<close>

theorem diffract_spacing_counterexample:
  "lensy_redirect_diffract (example_ray (0, 0, 1) (0, 0, - 1)) (0, 0, 0) (0, 0, 1) (3, 0, 4) 1 1 1
     = Inr (0, example_ray (0, 0, 0) (1 / 5, 0, cos (arcsin (1 / 5))))
   \<and> outgoing_sine (0, 0, - 1) (1 / 5, 0, cos (arcsin (1 / 5))) (0, 0, 1) (3, 0, 4) = 1 / 5
   \<and> grating_sine (lensy_mag3 (grating_a_perp (0, 0, 1) (3, 0, 4)))
        (0, 0, - 1) (0, 0, 1) (3, 0, 4) 1 1 1 = 1 / 3"
proof -
  have "outgoing_sine (0, 0, - 1) (1 / 5, 0, cos (arcsin (1 / 5))) (0, 0, 1) (3, 0, 4) = 1 / 5"
    by (simp add: outgoing_sine_def grating_k_def grating_t_hat_def grating_a_hat_def
          grating_a_perp_def unit3_def lensy_mag3_def sqrt_9)
  moreover have "grating_sine (lensy_mag3 (grating_a_perp (0, 0, 1) (3, 0, 4)))
        (0, 0, - 1) (0, 0, 1) (3, 0, 4) 1 1 1 = 1 / 3"
    by (simp add: grating_sine_def grating_phi_i_def grating_k_def grating_t_hat_def
          grating_a_hat_def grating_a_perp_def unit3_def lensy_mag3_def sqrt_9 atan2_0_1)
  ultimately show ?thesis
    using diffract_oblique_grating_vector by blast
qed

text \<open>
  Claim C2, amended. In \<^verbatim>\<open>lensy_redirect_diffract\<close> the term \<open>m / \<Lambda>\<close> of the grating
  equation uses \<open>\<Lambda> = \<parallel>a\<parallel>\<close>, the magnitude of the grating vector as it is passed; the
  projection \<open>a\<^sub>\<bottom>\<close> gives the direction \<open>\<^bold>a\<close> only. Whenever the routine returns \<open>0\<close>,
  the sine of the outgoing ray in the plane across the rulings is
  \<open>(sin \<phi>\<^sub>i / \<lambda>\<^sub>i' + m / \<parallel>a\<parallel>) \<lambda>\<^sub>o'\<close>. For a grating vector perpendicular to \<open>n\<close>, which
  is what the header asks for, this is the sine of the specification, with \<open>\<Lambda> = \<parallel>a\<^sub>\<bottom>\<parallel>\<close>.
\<close>

theorem diffract_spacing_is_length_of_a:
  assumes "lensy_redirect_diffract r q n a wli wlt m = Inr (0, r')"
  shows "outgoing_sine (ray_d r) (ray_d r') n a
           = grating_sine (lensy_mag3 a) (ray_d r) n a wli wlt m
       \<and> (lensy_inner3 a n = 0 \<longrightarrow>
            outgoing_sine (ray_d r) (ray_d r') n a
              = grating_sine (lensy_mag3 (grating_a_perp n a)) (ray_d r) n a wli wlt m)"
  using diffract_outgoing_sine [OF assms] by (simp add: a_perp_of_orthogonal)

theorem diffract_spacing_is_length_of_a_witness:
  "lensy_redirect_diffract (example_ray (0, 0, 1) (0, 0, - 1)) (0, 0, 0) (0, 0, 1) (3, 0, 0) 1 1 1
     = Inr (0, example_ray (0, 0, 0) (1 / 3, 0, cos (arcsin (1 / 3))))
   \<and> lensy_inner3 (3, 0, 0) (0, 0, 1) = 0
   \<and> outgoing_sine (0, 0, - 1) (1 / 3, 0, cos (arcsin (1 / 3))) (0, 0, 1) (3, 0, 0)
       = grating_sine (lensy_mag3 (grating_a_perp (0, 0, 1) (3, 0, 0)))
           (0, 0, - 1) (0, 0, 1) (3, 0, 0) 1 1 1"
  using diffract_spacing_is_length_of_a [OF diffract_in_plane_grating_vector]
    diffract_in_plane_grating_vector
  by simp

section \<open>The detector buffer\<close>

lemma size_of_buffer:
  "to_size_t (to_size_t (2 * to_size_t x) * to_size_t y) = to_size_t (2 * x * y)"
  by (simp add: to_size_t_def mod_simps)

lemma to_size_t_small: "0 \<le> x \<Longrightarrow> x < 2 ^ 31 \<Longrightarrow> to_size_t x = x"
  by (simp add: to_size_t_def)

lemma to_int32_small: "0 \<le> x \<Longrightarrow> x < 2 ^ 31 \<Longrightarrow> to_int32 x = x"
  by (simp add: to_int32_def)

lemma init_ccd_buffer:
  assumes "lensy_cross3 (ccd_vx ccd) (ccd_vy ccd) \<noteq> (0, 0, 0)" and "malloc_ok"
    and "0 \<le> ccd_x_nmax ccd" and "0 \<le> ccd_y_nmax ccd"
    and "2 * ccd_x_nmax ccd * ccd_y_nmax ccd < 2 ^ 31"
  shows "\<exists>ccd'. lensy_init_ccd malloc_ok junk ccd = Inr ccd'
           \<and> ccd_b_size ccd' = 2 * ccd_x_nmax ccd * ccd_y_nmax ccd
           \<and> ccd_b ccd' = map junk [0 ..< nat (ccd_x_nmax ccd * ccd_y_nmax ccd)]"
proof -
  define N where "N = 2 * ccd_x_nmax ccd * ccd_y_nmax ccd"
  have N0: "0 \<le> N" using assms(3,4) by (simp add: N_def)
  have N1: "N < 2 ^ 31" using assms(5) by (simp add: N_def)
  have size: "to_int32 (to_size_t (to_size_t (2 * to_size_t (ccd_x_nmax ccd))
                                          * to_size_t (ccd_y_nmax ccd))) = N"
    unfolding size_of_buffer N_def [symmetric]
    by (simp add: to_size_t_small [OF N0 N1] to_int32_small [OF N0 N1])
  have half: "nat N div 2 = nat (ccd_x_nmax ccd * ccd_y_nmax ccd)"
    unfolding N_def using assms(3,4) by (simp add: nat_mult_distrib mult.assoc)
  have d0: "lensy_mag3 (lensy_cross3 (ccd_vx ccd) (ccd_vy ccd)) \<noteq> 0"
    using assms(1) by (simp add: mag3_zero_iff)
  note eqs = size [unfolded N_def] to_size_t_small [OF N0 N1, unfolded N_def] half [unfolded N_def]
  show ?thesis
    using d0 assms(2)
    by (simp add: lensy_init_ccd_def Let_def eqs)
qed

text \<open>A detector of one pixel, on memory that holds the sample \<open>1\<close> everywhere.\<close>

lemma init_ccd_one_pixel:
  "lensy_init_ccd True (\<lambda>i. 1)
     \<lparr>ccd_v = (0, 0, 0), ccd_vx = (1, 0, 0), ccd_vy = (0, 1, 0), ccd_x_nmax = 1, ccd_y_nmax = 1,
      ccd_b = [], ccd_b_size = 0,
      ccd_p = \<lparr>plane_v = (0, 0, 0), plane_n = (0, 0, 0), plane_aperture = 0\<rparr>\<rparr>
   = Inr \<lparr>ccd_v = (0, 0, 0), ccd_vx = (1, 0, 0), ccd_vy = (0, 1, 0), ccd_x_nmax = 1,
      ccd_y_nmax = 1, ccd_b = [1], ccd_b_size = 2,
      ccd_p = \<lparr>plane_v = (0, 0, 0), plane_n = (0, 0, 1), plane_aperture = 4\<rparr>\<rparr>"
  by (simp add: lensy_init_ccd_def Let_def lensy_mag3_def size_of_buffer to_size_t_small
        to_int32_small)

text \<open>
  Claim C8, as stated: \<^verbatim>\<open>lensy_init_ccd\<close> allocates a zero-initialised buffer of
  \<open>Nx Ny\<close> 16-bit samples, so that every pixel reads \<open>0\<close> afterwards. This fails: the
  routine calls \<^verbatim>\<open>malloc\<close> and writes nothing into the block. On memory that holds the
  sample \<open>1\<close>, the only pixel of a detector of one pixel reads \<open>1\<close>.
\<close>

theorem init_ccd_zero_counterexample:
  "lensy_init_ccd True (\<lambda>i. 1)
     \<lparr>ccd_v = (0, 0, 0), ccd_vx = (1, 0, 0), ccd_vy = (0, 1, 0), ccd_x_nmax = 1, ccd_y_nmax = 1,
      ccd_b = [], ccd_b_size = 0,
      ccd_p = \<lparr>plane_v = (0, 0, 0), plane_n = (0, 0, 0), plane_aperture = 0\<rparr>\<rparr>
   = Inr \<lparr>ccd_v = (0, 0, 0), ccd_vx = (1, 0, 0), ccd_vy = (0, 1, 0), ccd_x_nmax = 1,
      ccd_y_nmax = 1, ccd_b = [1], ccd_b_size = 2,
      ccd_p = \<lparr>plane_v = (0, 0, 0), plane_n = (0, 0, 1), plane_aperture = 4\<rparr>\<rparr>
   \<and> [1 :: 16 word] ! 0 \<noteq> 0"
  using init_ccd_one_pixel by simp

text \<open>
  Claim C8, amended. For pixel axes that are not parallel, pixel counts \<open>Nx, Ny \<ge> 0\<close>
  with \<open>2 Nx Ny < 2\<^sup>3\<^sup>1\<close> and a successful \<^verbatim>\<open>malloc\<close>, \<^verbatim>\<open>lensy_init_ccd\<close> returns with
  \<open>b_size = 2 Nx Ny\<close> and a buffer of \<open>Nx Ny\<close> 16-bit samples that it has not
  initialised: pixel \<open>i\<close> reads what the allocated memory held there. The buffer is
  zero only once the caller has cleared it, as both driver programs do with \<^verbatim>\<open>memset\<close>.
\<close>

theorem init_ccd_buffer_not_initialised:
  assumes "lensy_cross3 (ccd_vx ccd) (ccd_vy ccd) \<noteq> (0, 0, 0)" and "malloc_ok"
    and "0 \<le> ccd_x_nmax ccd" and "0 \<le> ccd_y_nmax ccd"
    and "2 * ccd_x_nmax ccd * ccd_y_nmax ccd < 2 ^ 31"
  shows "\<exists>ccd'. lensy_init_ccd malloc_ok junk ccd = Inr ccd'
           \<and> ccd_b_size ccd' = 2 * ccd_x_nmax ccd * ccd_y_nmax ccd
           \<and> length (ccd_b ccd') = nat (ccd_x_nmax ccd * ccd_y_nmax ccd)
           \<and> (\<forall>i < nat (ccd_x_nmax ccd * ccd_y_nmax ccd). ccd_b ccd' ! i = junk i)"
proof -
  from init_ccd_buffer [OF assms, of junk] obtain ccd' where
    "lensy_init_ccd malloc_ok junk ccd = Inr ccd'"
    "ccd_b_size ccd' = 2 * ccd_x_nmax ccd * ccd_y_nmax ccd"
    "ccd_b ccd' = map junk [0 ..< nat (ccd_x_nmax ccd * ccd_y_nmax ccd)]"
    by blast
  then show ?thesis by simp
qed

theorem init_ccd_buffer_not_initialised_witness:
  "lensy_cross3 (1, 0, 0) (0, 1, 0) \<noteq> (0, 0, 0) \<and> (2 :: int) * 1 * 1 < 2 ^ 31
   \<and> (\<exists>ccd'. lensy_init_ccd True (\<lambda>i. 1)
         \<lparr>ccd_v = (0, 0, 0), ccd_vx = (1, 0, 0), ccd_vy = (0, 1, 0), ccd_x_nmax = 1,
          ccd_y_nmax = 1, ccd_b = [], ccd_b_size = 0,
          ccd_p = \<lparr>plane_v = (0, 0, 0), plane_n = (0, 0, 0), plane_aperture = 0\<rparr>\<rparr> = Inr ccd'
        \<and> ccd_b_size ccd' = 2 \<and> length (ccd_b ccd') = 1 \<and> ccd_b ccd' ! 0 = 1)"
  using init_ccd_buffer_not_initialised [of
      "\<lparr>ccd_v = (0, 0, 0), ccd_vx = (1, 0, 0), ccd_vy = (0, 1, 0), ccd_x_nmax = 1,
        ccd_y_nmax = 1, ccd_b = [], ccd_b_size = 0,
        ccd_p = \<lparr>plane_v = (0, 0, 0), plane_n = (0, 0, 0), plane_aperture = 0\<rparr>\<rparr>" True "\<lambda>i. 1"]
  by simp

section \<open>The cone of rays\<close>

lemma cone_add_ray_ok:
  assumes "alloc calls \<noteq> None"
  shows "\<exists>ray. cone_add_ray alloc fmt_e pr w3 (pl, rc, calls) = (ray # pl, rc + 1, calls + 1)"
  using assms by (auto simp: cone_add_ray_def list_add_def Let_def split: option.splits)

lemma cone_k_loop_count:
  assumes "\<forall>c. alloc c \<noteq> None" and "\<bar>idx2 (ray_d pr)\<bar> \<le> 1"
  shows "\<exists>pl' calls'. cone_k_loop alloc fmt_e pr d10 d1 m k (pl, rc, calls) = Inr (pl', rc + max 0 (m - k), calls')
           \<and> length pl' = length pl + nat (m - k)"
  using assms
proof (induction alloc fmt_e pr d10 d1 m k "(pl, rc, calls)" arbitrary: pl rc calls rule: cone_k_loop.induct)
  case (1 alloc fmt_e pr d10 d1 m k)
  show ?case
  proof (cases "k < m")
    case False
    then show ?thesis by (subst cone_k_loop.simps) simp
  next
    case True
    obtain w3 where w3: "cone_w3 pr d10 d1 m k = Inr w3"
      using "1.prems"(2) by (simp add: cone_w3_def Let_def)
    obtain ray where add: "cone_add_ray alloc fmt_e pr w3 (pl, rc, calls) = (ray # pl, rc + 1, calls + 1)"
      using cone_add_ray_ok [of alloc calls fmt_e pr w3 pl rc] "1.prems"(1) by auto
    from "1.hyps" [OF True w3 add "1.prems"] obtain pl' calls' where
      rec: "cone_k_loop alloc fmt_e pr d10 d1 m (k + 1) (ray # pl, rc + 1, calls + 1)
              = Inr (pl', rc + 1 + max 0 (m - (k + 1)), calls')"
      and len: "length pl' = length (ray # pl) + nat (m - (k + 1))"
      by blast
    have "cone_k_loop alloc fmt_e pr d10 d1 m k (pl, rc, calls) = Inr (pl', rc + 1 + max 0 (m - (k + 1)), calls')"
      using rec by (subst cone_k_loop.simps) (simp add: True w3 add)
    moreover have "rc + 1 + max 0 (m - (k + 1)) = rc + max 0 (m - k)" using True by simp
    moreover have "length (ray # pl) + nat (m - (k + 1)) = length pl + nat (m - k)" using True by simp
    ultimately show ?thesis using len by auto
  qed
qed


lemma sin_cubic_bounds:
  fixes x :: real
  assumes "0 \<le> x"
  shows "x - x * x * x / 6 \<le> sin x" and "sin x \<le> x + x * x * x / 6"
proof -
  have "(\<Sum>m<3. sin_coeff m * x ^ m) = x"
    by (simp add: numeral_3_eq_3 sin_coeff_def)
  with Maclaurin_sin_bound [of x 3] have "\<bar>sin x - x\<bar> \<le> \<bar>x\<bar> ^ 3 / 6"
    by (simp add: fact_numeral)
  moreover have "\<bar>x\<bar> ^ 3 = x * x * x"
    using assms by (simp add: power3_eq_cube)
  ultimately show "x - x * x * x / 6 \<le> sin x" and "sin x \<le> x + x * x * x / 6"
    by linarith+
qed

lemma cone_shell_1: "\<lfloor>sin (real_of_int 1 * (DEG2RAD * 2)) * 2 * PI / (DEG2RAD * 2)\<rfloor> = 6"
proof -
  define x :: real where "x = 0.03490658504"
  define c :: real where "c = 314159265 / 1745329252 * 1000"
  have x0: "0 \<le> x" by (simp add: x_def)
  have lo: "(0.0348 :: real) \<le> x - x * x * x / 6" by (simp add: x_def)
  have hi: "x + x * x * x / 6 \<le> (0.0350 :: real)" by (simp add: x_def)
  have s: "0.0348 \<le> sin x" "sin x \<le> 0.0350"
    using sin_cubic_bounds [OF x0] lo hi by linarith+
  have l1: "0.0348 * c \<le> sin x * c"
    using s(1) by (intro mult_right_mono) (simp_all add: c_def)
  have l2: "(6 :: real) \<le> 0.0348 * c" by (simp add: c_def)
  have l: "of_int 6 \<le> sin x * c"
    using order_trans [OF l2 l1] by simp
  have u1: "sin x * c \<le> 0.0350 * c"
    using s(2) by (intro mult_right_mono) (simp_all add: c_def)
  have u2: "0.0350 * c < (6 :: real) + 1" by (simp add: c_def)
  have u: "sin x * c < of_int 6 + 1"
    using le_less_trans [OF u1 u2] by simp
  have "\<lfloor>sin x * c\<rfloor> = 6"
    using l u by (rule floor_unique)
  moreover have "sin (real_of_int 1 * (DEG2RAD * 2)) * 2 * PI / (DEG2RAD * 2) = sin x * c"
    by (simp add: PI_def DEG2RAD_def x_def c_def)
  ultimately show ?thesis by simp
qed

lemma cone_shell_2: "\<lfloor>sin (real_of_int 2 * (DEG2RAD * 2)) * 2 * PI / (DEG2RAD * 2)\<rfloor> = 12"
proof -
  define x :: real where "x = 0.06981317008"
  define c :: real where "c = 314159265 / 1745329252 * 1000"
  have x0: "0 \<le> x" by (simp add: x_def)
  have lo: "(0.0697 :: real) \<le> x - x * x * x / 6" by (simp add: x_def)
  have hi: "x + x * x * x / 6 \<le> (0.0699 :: real)" by (simp add: x_def)
  have s: "0.0697 \<le> sin x" "sin x \<le> 0.0699"
    using sin_cubic_bounds [OF x0] lo hi by linarith+
  have l1: "0.0697 * c \<le> sin x * c"
    using s(1) by (intro mult_right_mono) (simp_all add: c_def)
  have l2: "(12 :: real) \<le> 0.0697 * c" by (simp add: c_def)
  have l: "of_int 12 \<le> sin x * c"
    using order_trans [OF l2 l1] by simp
  have u1: "sin x * c \<le> 0.0699 * c"
    using s(2) by (intro mult_right_mono) (simp_all add: c_def)
  have u2: "0.0699 * c < (12 :: real) + 1" by (simp add: c_def)
  have u: "sin x * c < of_int 12 + 1"
    using le_less_trans [OF u1 u2] by simp
  have "\<lfloor>sin x * c\<rfloor> = 12"
    using l u by (rule floor_unique)
  moreover have "sin (real_of_int 2 * (DEG2RAD * 2)) * 2 * PI / (DEG2RAD * 2) = sin x * c"
    by (simp add: PI_def DEG2RAD_def x_def c_def)
  ultimately show ?thesis by simp
qed

lemma cone_shells: "\<lfloor>(DEG2RAD * 10 / 2) / (DEG2RAD * 2)\<rfloor> = 2"
  by (simp add: DEG2RAD_def floor_eq_iff)


lemma cone_add_center_ok:
  assumes "alloc calls \<noteq> None"
  shows "\<exists>ray. cone_add_center alloc fmt_e pr (pl, rc, calls) = (ray # pl, rc + 1, calls + 1)"
  using assms by (auto simp: cone_add_center_def list_add_def Let_def split: option.splits)

lemma cone_10_2:
  assumes alloc: "\<forall>c. alloc c \<noteq> None" and d: "ray_d pr = (1, 0, 0)"
  shows "\<exists>pl'. lensy_cone alloc fmt_e pl pr 10 2 = Inr (19, pl') \<and> length pl' = length pl + 19"
proof -
  have z: "\<bar>idx2 (ray_d pr)\<bar> \<le> 1" by (simp add: d)
  have d10: "lensy_mag3 (ray_d pr) = 1" by (simp add: d lensy_mag3_def)
  have d0: "DEG2RAD * 2 \<noteq> 0" by (simp add: DEG2RAD_def)
  obtain c where center: "cone_add_center alloc fmt_e pr (pl, 0, 0) = (c # pl, 1, 1)"
    using cone_add_center_ok [of alloc 0 fmt_e pr pl 0] alloc by auto
  obtain pl2 calls2 where
    shell1: "cone_k_loop alloc fmt_e pr 1 (real_of_int 1 * (DEG2RAD * 2)) 6 0 (c # pl, 1, 1)
               = Inr (pl2, 7, calls2)"
    and len2: "length pl2 = length pl + 7"
    using cone_k_loop_count [OF alloc z, of fmt_e 1 "real_of_int 1 * (DEG2RAD * 2)" 6 0 "c # pl" 1 1]
    by auto
  obtain pl3 calls3 where
    shell2: "cone_k_loop alloc fmt_e pr 1 (real_of_int 2 * (DEG2RAD * 2)) 12 0 (pl2, 7, calls2)
               = Inr (pl3, 19, calls3)"
    and len3: "length pl3 = length pl + 19"
    using cone_k_loop_count [OF alloc z, of fmt_e 1 "real_of_int 2 * (DEG2RAD * 2)" 12 0 pl2 7 calls2]
      len2 by auto
  have j3: "cone_j_loop alloc fmt_e pr 1 (DEG2RAD * 2) 2 3 (pl3, 19, calls3) = Inr (pl3, 19, calls3)"
    by (subst cone_j_loop.simps) simp
  have j2: "cone_j_loop alloc fmt_e pr 1 (DEG2RAD * 2) 2 2 (pl2, 7, calls2) = Inr (pl3, 19, calls3)"
    apply (subst cone_j_loop.simps)
    apply (simp only: Let_def cone_shell_2)
    apply (simp add: in_int32_def shell2 [simplified] j3)
    done
  have j1: "cone_j_loop alloc fmt_e pr 1 (DEG2RAD * 2) 2 1 (c # pl, 1, 1) = Inr (pl3, 19, calls3)"
    apply (subst cone_j_loop.simps)
    apply (simp only: Let_def cone_shell_1)
    apply (simp add: in_int32_def shell1 [simplified] j2)
    done
  have "lensy_cone alloc fmt_e pl pr 10 2 = Inr (19, pl3)"
    unfolding lensy_cone_def Let_def d10 center cone_shells
    using d0 j1 by (simp add: in_int32_def)
  with len3 show ?thesis by blast
qed

text \<open>
  The count that the specification's scenario gives, with the angles in degrees:
  \<open>1 + \<Sum>\<^sub>j\<^sub>=\<^sub>1\<^sup>5 \<lfloor>sin (j 2\<degree>) 180\<degree> / 2\<degree>\<rfloor>\<close>. Bounds on \<open>\<pi>\<close> and on the sine give its
  value, \<open>1 + 3 + 6 + 9 + 12 + 15 = 46\<close>.
\<close>

lemma pi_ge_3: "3 \<le> pi"
  using sin_x_le_x [of "pi / 6"] by (simp add: sin_30)

lemma sin_quintic_upper:
  fixes x :: real
  assumes "0 \<le> x"
  shows "sin x \<le> x - x ^ 3 / 6 + x ^ 5 / 120"
proof -
  have five: "(\<Sum>m<5. f m) = f 0 + f 1 + f 2 + f 3 + f 4" for f :: "nat \<Rightarrow> real"
    by (simp add: numeral_eq_Suc)
  have "sin_coeff 0 = 0" "sin_coeff 1 = 1" "sin_coeff 2 = 0" "sin_coeff 3 = - 1 / 6"
    "sin_coeff 4 = 0"
    by (simp_all add: sin_coeff_def fact_numeral)
  then have "(\<Sum>m<5. sin_coeff m * x ^ m) = x - x ^ 3 / 6"
    unfolding five by simp
  with Maclaurin_sin_bound [of x 5] have "\<bar>sin x - (x - x ^ 3 / 6)\<bar> \<le> \<bar>x\<bar> ^ 5 / 120"
    by (simp add: fact_numeral)
  moreover have "\<bar>x\<bar> ^ 5 = x ^ 5" using assms by simp
  ultimately show ?thesis by linarith
qed

lemma pi_gt_31: "31 / 10 < pi"
proof (rule ccontr)
  assume "\<not> 31 / 10 < pi"
  define x where "x = pi / 6"
  have hi: "x \<le> 31 / 60" using \<open>\<not> 31 / 10 < pi\<close> by (simp add: x_def)
  have lo: "1 / 2 \<le> x" using pi_ge_3 by (simp add: x_def)
  have x0: "0 \<le> x" using lo by simp
  have "(1 / 2) ^ 3 \<le> x ^ 3" using lo by (intro power_mono) simp_all
  moreover have "x ^ 5 \<le> (31 / 60) ^ 5" using hi x0 by (intro power_mono) simp_all
  ultimately have "x - x ^ 3 / 6 + x ^ 5 / 120 \<le> 31 / 60 - (1 / 2) ^ 3 / 6 + (31 / 60) ^ 5 / 120"
    using hi by linarith
  also have "\<dots> < 1 / 2" by (simp add: power_divide)
  finally have "x - x ^ 3 / 6 + x ^ 5 / 120 < 1 / 2" .
  moreover have "sin x = 1 / 2" by (simp add: x_def sin_30)
  ultimately show False using sin_quintic_upper [OF x0] by linarith
qed

lemma pi_lt_32: "pi < 32 / 10"
proof (rule ccontr)
  assume "\<not> pi < 32 / 10"
  define x where "x = pi / 6"
  have lo: "8 / 15 \<le> x" using \<open>\<not> pi < 32 / 10\<close> by (simp add: x_def)
  have hi: "x \<le> 2 / 3" using pi_less_4 by (simp add: x_def)
  have x0: "0 \<le> x" using lo by simp
  have half: "x * (1 - x * x / 6) \<le> 1 / 2"
    using sin_cubic_bounds(1) [OF x0] by (simp add: x_def sin_30 algebra_simps)
  have "x * x \<le> 2 / 3 * (2 / 3)" using hi x0 by (intro mult_mono) simp_all
  then have f1: "25 / 27 \<le> 1 - x * x / 6" by simp
  have x6: "x < 6 / 10"
  proof (rule ccontr)
    assume "\<not> x < 6 / 10"
    then have "6 / 10 * (25 / 27) \<le> x * (1 - x * x / 6)"
      using f1 by (intro mult_mono) simp_all
    with half show False by simp
  qed
  have "x * x \<le> 6 / 10 * (6 / 10)" using x6 x0 by (intro mult_mono) simp_all
  then have f2: "94 / 100 \<le> 1 - x * x / 6" by simp
  have "8 / 15 * (94 / 100) \<le> x * (1 - x * x / 6)"
    using lo f2 by (intro mult_mono) simp_all
  with half show False by simp
qed

lemma sum5: "(\<Sum>j = 1..5. f (j::nat)) = f 1 + f 2 + f 3 + f 4 + (f 5 :: int)"
  by (simp add: numeral_eq_Suc sum.atLeast_Suc_atMost)

lemma degree_term:
  fixes j :: nat
  assumes "1 \<le> j" "j \<le> 5"
    and lo: "real_of_int L \<le> (real j * 31 / 900 - real j * 31 / 900 * (real j * 31 / 900) * (real j * 31 / 900) / 6) * 90"
    and hi: "real j * 32 / 10 \<le> real_of_int L + 1"
  shows "\<lfloor>sin (real j * 2 * pi / 180) * (180 / 2)\<rfloor> = L"
proof -
  define y where "y = real j * 31 / 900"
  define x where "x = real j * 2 * pi / 180"
  have j0: "0 < real j" using assms(1) by simp
  have y0: "0 \<le> y" by (simp add: y_def)
  have "31 / 900 \<le> pi / 90" using pi_gt_31 by simp
  then have "real j * (31 / 900) \<le> real j * (pi / 90)"
    using j0 by (intro mult_left_mono) simp_all
  then have yx: "y \<le> x" unfolding y_def x_def by (simp add: mult_ac)
  have x0: "0 \<le> x" using y0 yx by simp
  have "x \<le> 5 * 2 * pi / 180"
    unfolding x_def using assms(2) by (simp add: field_simps)
  then have x2: "x \<le> pi / 2" using pi_gt_zero by linarith
  have "- (pi / 2) \<le> y" using y0 pi_gt_zero by linarith
  then have "sin y \<le> sin x" using yx x2 by (rule sin_monotone_2pi_le)
  moreover have "y - y * y * y / 6 \<le> sin y" using sin_cubic_bounds(1) [OF y0] .
  ultimately have "(y - y * y * y / 6) * 90 \<le> sin x * 90" by simp
  with lo have l: "real_of_int L \<le> sin x * (180 / 2)" unfolding y_def by simp
  have "real j * pi < real j * (32 / 10)"
    using pi_lt_32 j0 by (intro mult_strict_left_mono) simp_all
  moreover have "sin x * 90 \<le> x * 90" using sin_x_le_x [OF x0] by simp
  moreover have "x * 90 = real j * pi" by (simp add: x_def)
  ultimately have u: "sin x * (180 / 2) < real_of_int L + 1" using hi by simp
  show ?thesis unfolding x_def [symmetric] using l u by (rule floor_unique)
qed

lemma claimed_count:
  "1 + (\<Sum>j = 1..5. \<lfloor>sin (real (j::nat) * 2 * pi / 180) * (180 / 2)\<rfloor>) = 46"
proof -
  have "\<lfloor>sin (real (1::nat) * 2 * pi / 180) * (180 / 2)\<rfloor> = 3" by (rule degree_term) simp_all
  moreover have "\<lfloor>sin (real (2::nat) * 2 * pi / 180) * (180 / 2)\<rfloor> = 6" by (rule degree_term) simp_all
  moreover have "\<lfloor>sin (real (3::nat) * 2 * pi / 180) * (180 / 2)\<rfloor> = 9" by (rule degree_term) simp_all
  moreover have "\<lfloor>sin (real (4::nat) * 2 * pi / 180) * (180 / 2)\<rfloor> = 12" by (rule degree_term) simp_all
  moreover have "\<lfloor>sin (real (5::nat) * 2 * pi / 180) * (180 / 2)\<rfloor> = 15" by (rule degree_term) simp_all
  ultimately show ?thesis unfolding sum5 by linarith
qed

text \<open>
  Claim C6, as stated: for the apex direction \<open>(1, 0, 0)\<close>, a cone of \<open>10\<close> degrees and a
  step of \<open>2\<close> degrees, \<^verbatim>\<open>lensy_cone\<close> emits \<open>1 + \<Sum>\<^sub>j\<^sub>=\<^sub>1\<^sup>5 \<lfloor>sin (j 2\<degree>) 180\<degree> / 2\<degree>\<rfloor>\<close>
  rays. This fails: the sum of the claim is \<open>46\<close>, and the routine emits \<open>19\<close> rays. The
  loop runs over \<open>\<lfloor>(10 / 2) / 2\<rfloor> = 2\<close> shells, not five, and a shell at the angle \<open>\<theta>\<close>
  has \<open>\<lfloor>sin \<theta> 2 \<pi> / \<Delta>\<rfloor>\<close> rays, which is \<open>\<lfloor>sin \<theta> 360\<degree> / 2\<degree>\<rfloor>\<close>.
\<close>

theorem cone_count_counterexample:
  "(\<exists>pl'. lensy_cone (\<lambda>k. Some (example_ray (0, 0, 0) (0, 0, 0))) (\<lambda>x. []) []
            (example_ray (0, 0, 0) (1, 0, 0)) 10 2 = Inr (19, pl'))
   \<and> 1 + (\<Sum>j = 1..5. \<lfloor>sin (real (j::nat) * 2 * pi / 180) * (180 / 2)\<rfloor>) = 46"
proof -
  have "\<exists>pl'. lensy_cone (\<lambda>k. Some (example_ray (0, 0, 0) (0, 0, 0))) (\<lambda>x. []) []
            (example_ray (0, 0, 0) (1, 0, 0)) 10 2 = Inr (19, pl')"
    using cone_10_2 [of "\<lambda>k. Some (example_ray (0, 0, 0) (0, 0, 0))"
        "example_ray (0, 0, 0) (1, 0, 0)" "\<lambda>x. []" "[]"]
    by auto
  then show ?thesis using claimed_count by blast
qed

text \<open>
  Claim C6, amended. For the apex direction \<open>(1, 0, 0)\<close>, a cone of \<open>10\<close> degrees and a
  step of \<open>2\<close> degrees, and when every allocation succeeds, \<^verbatim>\<open>lensy_cone\<close> emits
  exactly \<open>19\<close> rays: the axial ray and the rays of the shells \<open>j = 1, \<dots>, \<lfloor>(\<Theta>/2)/\<Delta>\<rfloor>\<close>,
  which are two, with \<open>\<lfloor>sin (j \<Delta>) 2 \<pi> / \<Delta>\<rfloor>\<close> rays each for \<open>\<Delta>\<close> in radians, which are
  \<open>6\<close> and \<open>12\<close> with the constants \<open>PI\<close> and \<open>DEG2RAD\<close> of lensy.h.
\<close>

theorem cone_count_for_10_and_2_degrees:
  assumes "\<forall>c. alloc c \<noteq> None" and "ray_d pr = (1, 0, 0)"
  shows "(\<exists>pl'. lensy_cone alloc fmt_e pl pr 10 2 = Inr (19, pl')
              \<and> length pl' = length pl + 19)
       \<and> \<lfloor>(DEG2RAD * 10 / 2) / (DEG2RAD * 2)\<rfloor> = 2
       \<and> 19 = 1 + (\<Sum>j = 1..2.
                    \<lfloor>sin (real (j::nat) * (DEG2RAD * 2)) * 2 * PI / (DEG2RAD * 2)\<rfloor>)"
proof -
  have "(\<Sum>j = 1..2. \<lfloor>sin (real (j::nat) * (DEG2RAD * 2)) * 2 * PI / (DEG2RAD * 2)\<rfloor>)
      = \<lfloor>sin (real_of_int 1 * (DEG2RAD * 2)) * 2 * PI / (DEG2RAD * 2)\<rfloor>
        + \<lfloor>sin (real_of_int 2 * (DEG2RAD * 2)) * 2 * PI / (DEG2RAD * 2)\<rfloor>"
    by (simp add: numeral_eq_Suc sum.atLeast_Suc_atMost)
  then have "19 = 1 + (\<Sum>j = 1..2.
                    \<lfloor>sin (real (j::nat) * (DEG2RAD * 2)) * 2 * PI / (DEG2RAD * 2)\<rfloor>)"
    by (simp only: cone_shell_1 cone_shell_2)
  then show ?thesis
    using cone_10_2 [OF assms, of fmt_e pl] cone_shells by blast
qed

theorem cone_count_for_10_and_2_degrees_witness:
  "ray_d (example_ray (0, 0, 0) (1, 0, 0)) = (1, 0, 0)
   \<and> (\<exists>pl'. lensy_cone (\<lambda>k. Some (example_ray (0, 0, 0) (0, 0, 0))) (\<lambda>x. []) []
            (example_ray (0, 0, 0) (1, 0, 0)) 10 2 = Inr (19, pl') \<and> length pl' = 19)"
  using cone_count_for_10_and_2_degrees [of "\<lambda>k. Some (example_ray (0, 0, 0) (0, 0, 0))"
      "example_ray (0, 0, 0) (1, 0, 0)" "\<lambda>x. []" "[]"]
  by simp

section \<open>The beam of rays\<close>


subsection \<open>The values of a loop variable\<close>













subsection \<open>The loops\<close>







subsection \<open>The two vectors across the beam\<close>





subsection \<open>The grid\<close>



subsection \<open>A beam of diameter two with the step one\<close>







subsection \<open>The claim about the beam\<close>




end
